theory Spec2Isabelle
  imports Complex_Main
begin

section \<open>Teltonika gateway module of MAVProxy: a shallow embedding\<close>

text \<open>
  The theory embeds \<^verbatim>\<open>MAVProxy/modules/mavproxy_teltonika.py\<close>: the JSON-RPC client
  \<^verbatim>\<open>_json_rpc\<close>, the helper \<^verbatim>\<open>_any_int\<close>, the tick function \<^verbatim>\<open>idle_task\<close> and the SMS handler
  \<^verbatim>\<open>incoming_sms\<close>.

  Conventions of the embedding.
  \<^item> Python strings are \<^typ>\<open>string\<close>; a character is a code point below 256, so the degree
    sign is the single character \<open>0xB0\<close>.
  \<^item> Python floats (distances, coordinates, wall-clock times) are modelled by \<^typ>\<open>real\<close>:
    binary rounding, infinities and NaN are not represented.  The builtin \<^verbatim>\<open>float(str)\<close> is
    a parameter \<open>pf\<close> of every function that calls it (\<open>None\<close> is \<^verbatim>\<open>ValueError\<close>);
    \<open>dec_float\<close> below is one instance, used at concrete inputs.
  \<^item> \<^verbatim>\<open>base64.decodebytes(s.encode('ascii')).decode('utf-8')\<close> is the parameter \<open>dec\<close> of
    the SMS handler (\<open>None\<close> is any of the exceptions it raises).
  \<^item> The gateway is an oracle \<open>reply\<close> from request ids to responses; every exception of
    the source is a value of \<open>error\<close>; everything the code sends or prints is an \<open>effect\<close>,
    in the order of the source.  The debug-level \<^verbatim>\<open>self.log\<close> lines are left out, and a failure
    of the HTTP library inside \<^verbatim>\<open>send_sms\<close> is not modelled.
\<close>

subsection \<open>Strings\<close>

text \<open>\<^verbatim>\<open>str.isspace\<close> on code points below 256.\<close>

definition is_space :: "char \<Rightarrow> bool" where
  "is_space c = (let n = (of_char c :: nat) in
     (9 \<le> n \<and> n \<le> 13) \<or> (28 \<le> n \<and> n \<le> 32) \<or> n = 133 \<or> n = 160)"

definition py_strip :: "string \<Rightarrow> string" where
  "py_strip s = rev (dropWhile is_space (rev (dropWhile is_space s)))"

text \<open>\<^verbatim>\<open>s.rstrip(c)\<close> for a single character \<open>c\<close>.\<close>

definition py_rstrip :: "char \<Rightarrow> string \<Rightarrow> string" where
  "py_rstrip c s = rev (dropWhile (\<lambda>d. d = c) (rev s))"

definition degree_sign :: char where
  "degree_sign = CHR 0xB0"

text \<open>\<^verbatim>\<open>str.lower\<close> and \<^verbatim>\<open>str.upper\<close> on code points below 256 (the letters of ASCII and of
  Latin-1; \<open>0xD7\<close> and \<open>0xF7\<close> are the multiplication and division signs; upper-casing
  \<open>0xB5\<close>, \<open>0xDF\<close> and \<open>0xFF\<close> leaves the range and is not needed: \<open>py_upper\<close> is applied to
  ASCII command words only).\<close>

definition lower_char :: "char \<Rightarrow> char" where
  "lower_char c = (let n = (of_char c :: nat) in
     if (65 \<le> n \<and> n \<le> 90) \<or> (192 \<le> n \<and> n \<le> 222 \<and> n \<noteq> 215) then char_of (n + 32) else c)"

definition upper_char :: "char \<Rightarrow> char" where
  "upper_char c = (let n = (of_char c :: nat) in
     if (97 \<le> n \<and> n \<le> 122) \<or> (224 \<le> n \<and> n \<le> 254 \<and> n \<noteq> 247) then char_of (n - 32) else c)"

definition py_lower :: "string \<Rightarrow> string" where
  "py_lower s = map lower_char s"

definition py_upper :: "string \<Rightarrow> string" where
  "py_upper s = map upper_char s"

definition starts_with :: "string \<Rightarrow> string \<Rightarrow> bool" where
  "starts_with p s = (take (length p) s = p)"

text \<open>\<^verbatim>\<open>s.split(' ')\<close>: splits at every single space and keeps the empty pieces.\<close>

fun split_space :: "string \<Rightarrow> string list" where
  "split_space [] = [[]]"
| "split_space (c # cs) =
     (if c = CHR '' '' then [] # split_space cs
      else (case split_space cs of
              [] \<Rightarrow> [[c]]
            | w # ws \<Rightarrow> (c # w) # ws))"

text \<open>\<^verbatim>\<open>[a.strip() for a in s.split(' ') if a.strip()]\<close>\<close>

definition tokens :: "string \<Rightarrow> string list" where
  "tokens s = map py_strip (filter (\<lambda>a. py_strip a \<noteq> []) (split_space s))"

subsection \<open>The builtins \<^verbatim>\<open>int\<close> and \<^verbatim>\<open>float\<close>\<close>

definition is_digit :: "char \<Rightarrow> bool" where
  "is_digit c = (let n = (of_char c :: nat) in 48 \<le> n \<and> n \<le> 57)"

definition digit_val :: "char \<Rightarrow> nat" where
  "digit_val c = of_char c - 48"

text \<open>The digits of \<^verbatim>\<open>int(str)\<close>: at least one digit, single underscores between digits
  only.  The flag says that the previous character was a digit.\<close>

fun int_body :: "nat \<Rightarrow> bool \<Rightarrow> string \<Rightarrow> nat option" where
  "int_body acc lastd [] = (if lastd then Some acc else None)"
| "int_body acc lastd (c # cs) =
     (if is_digit c then int_body (10 * acc + digit_val c) True cs
      else if c = CHR ''_'' \<and> lastd then int_body acc False cs
      else None)"

text \<open>\<^verbatim>\<open>int(s)\<close> for a string: surrounding whitespace, an optional sign, the digits;
  \<open>None\<close> is \<^verbatim>\<open>ValueError\<close>.\<close>

definition py_int :: "string \<Rightarrow> int option" where
  "py_int s =
     (case py_strip s of
        [] \<Rightarrow> None
      | c # cs \<Rightarrow>
          if c = CHR ''-'' then map_option (\<lambda>n. - int n) (int_body 0 False cs)
          else if c = CHR ''+'' then map_option int (int_body 0 False cs)
          else map_option int (int_body 0 False (c # cs)))"

text \<open>\<^verbatim>\<open>int(x)\<close> for a float: truncation towards zero.\<close>

definition py_trunc :: "real \<Rightarrow> int" where
  "py_trunc x = (if 0 \<le> x then \<lfloor>x\<rfloor> else \<lceil>x\<rceil>)"

text \<open>An instance of \<^verbatim>\<open>float(str)\<close> on plain decimal literals (an optional sign, digits, an
  optional fraction), with the exact decimal value.  It serves at concrete inputs; the
  theorems hold for every parser \<open>pf\<close>.\<close>

definition digits_value :: "string \<Rightarrow> nat" where
  "digits_value ds = foldl (\<lambda>acc c. 10 * acc + digit_val c) 0 ds"

definition dec_unsigned :: "string \<Rightarrow> real option" where
  "dec_unsigned s =
     (let ip = takeWhile is_digit s; rest = dropWhile is_digit s in
      case rest of
        [] \<Rightarrow> if ip = [] then None else Some (real (digits_value ip))
      | c # fp \<Rightarrow>
          if c = CHR ''.'' \<and> (ip \<noteq> [] \<or> fp \<noteq> []) \<and> list_all is_digit fp
          then Some (real (digits_value ip) + real (digits_value fp) / 10 ^ length fp)
          else None)"

definition dec_float :: "string \<Rightarrow> real option" where
  "dec_float s =
     (case py_strip s of
        [] \<Rightarrow> None
      | c # cs \<Rightarrow>
          if c = CHR ''-'' then map_option uminus (dec_unsigned cs)
          else if c = CHR ''+'' then dec_unsigned cs
          else dec_unsigned (c # cs))"

subsection \<open>Data of the module\<close>

text \<open>The \<^verbatim>\<open>code\<close> of a JSON-RPC error envelope is whatever JSON carries: a string or a
  number.  The source compares it with the string \<^verbatim>\<open>'-32002'\<close>.\<close>

datatype json_code = CodeStr string | CodeInt int

datatype error =
    JsonRPCError json_code string
  | TransportError
  | DecodeError
  | KeyError
  | ValueError
  | IndexError
  | AttributeError
  | TypeError
  | ZeroDivisionError

text \<open>The second element of a \<^verbatim>\<open>result\<close> array, by the one key the caller reads:
  \<^verbatim>\<open>ubus_rpc_session\<close> after a login, \<^verbatim>\<open>values\<close> (the sections in the order of the response)
  after \<^verbatim>\<open>uci get\<close>, \<^verbatim>\<open>mobile\<close> after \<^verbatim>\<open>mobile_info\<close>.\<close>

datatype payload =
    LoginPayload string
  | ValuesPayload "(string \<times> (string \<rightharpoonup> string)) list"
  | MobilePayload "string \<rightharpoonup> string"
  | OtherPayload

text \<open>What the gateway answers: an error envelope, a result array (its code and its
  optional payload), or nothing that \<^verbatim>\<open>requests.post(...).json()\<close> can return.\<close>

datatype response =
    Fault json_code string
  | Reply int "payload option"
  | NoResponse

text \<open>\<^verbatim>\<open>GLOBAL_POSITION_INT\<close>, \<^verbatim>\<open>SYS_STATUS\<close> and \<^verbatim>\<open>WIND\<close> as the module reads them.\<close>

record gpos =
  pos_lat :: int
  pos_lon :: int
  pos_vx :: int
  pos_vy :: int
  pos_hdg :: int

record sys_status =
  battery_remaining :: int
  voltage_battery :: int

record wind =
  wind_speed :: real
  wind_direction :: real

datatype rpc_params =
    LoginParams "string option" "string option"
  | ConfigParam string
  | ModemParam string
  | SetMessage string string gpos
  | ApplyTimeout int

record rpc_request =
  req_id :: int
  req_token :: string
  req_method :: string
  req_obj :: string
  req_action :: string
  req_params :: rpc_params

text \<open>A telemetry link; the flag is \<^verbatim>\<open>hasattr(link.mav, "cellular_status_send")\<close>.\<close>

datatype link = Link (link_id: nat) (has_cellular_status: bool)

datatype frame = MAV_FRAME_LOCAL_OFFSET_NED | MAV_FRAME_BODY_OFFSET_FRD

text \<open>The vehicle commands of the SMS handler, with the arguments that vary.\<close>

datatype vehicle_command =
    ArmCommand nat nat
  | SetMode string
  | SetPositionTargetLocalNed nat frame real real
  | SetPositionTargetGlobalInt nat int int
  | DoChangeSpeed "string list"
  | WaypointSetCurrent int

text \<open>The texts of the replies and of the console lines, by their variable parts.\<close>

datatype sms_text =
    UsageMove
  | NotGuided string
  | StatusText bool string sys_status gpos wind
  | UsageGoto string
  | GoingTo real real
  | UsageSpeed
  | UsageWp
  | UnknownCommand string

datatype log_line =
    SessionStarted
  | LoginFailed
  | ModemSelected string
  | InvalidSession
  | StatusSet int int int
  | PositionUnknown
  | SmsFrom string string
  | Moving real real

datatype effect =
    Rpc rpc_request response
  | CellularStatus link int int int
  | RadioStatus link int int
  | Vehicle vehicle_command
  | SendSms string sms_text
  | Print log_line

text \<open>\<^verbatim>\<open>teltonika_settings\<close>, the fields the modelled functions read.\<close>

record settings =
  username :: "string option"
  password :: "string option"
  freq :: real
  sendalllinks :: bool
  sendalloutputs :: bool
  sms_enabled :: bool

text \<open>The fields of \<^verbatim>\<open>TeltonikaModule\<close>, and \<^verbatim>\<open>mpstate.mav_master\<close>: the host's list, which
  \<^verbatim>\<open>links += self.mpstate.mav_outputs\<close> extends in place when \<^verbatim>\<open>links\<close> is that list.\<close>

record module_state =
  started :: bool
  session :: "string option"
  last_status :: "(string \<rightharpoonup> string) option"
  last_update :: real
  last_login :: real
  request_num :: int
  last_status_message_update :: real
  modem :: "string option"
  mav_master :: "link list"

text \<open>What a tick reads from outside the module: the gateway's answer to each request
  id, the primary link \<^verbatim>\<open>self.master\<close>, \<^verbatim>\<open>mpstate.mav_outputs\<close>, and the cached
  \<^verbatim>\<open>GLOBAL_POSITION_INT\<close>.\<close>

record env =
  reply :: "int \<Rightarrow> response"
  master :: link
  mav_outputs :: "link list"
  position :: "gpos option"

subsection \<open>\<^verbatim>\<open>_json_rpc\<close>\<close>

definition placeholder :: string where
  "placeholder = ''00000000000000000000000000000000''"

text \<open>\<^verbatim>\<open>self.session or "000..."\<close>: \<open>None\<close> and the empty string are both falsy.\<close>

definition session_param :: "string option \<Rightarrow> string" where
  "session_param s = (case s of None \<Rightarrow> placeholder | Some t \<Rightarrow> if t = [] then placeholder else t)"

definition json_rpc ::
  "(int \<Rightarrow> response) \<Rightarrow> module_state \<Rightarrow> string \<Rightarrow> string \<Rightarrow> string \<Rightarrow> rpc_params
     \<Rightarrow> module_state \<times> effect list \<times> (error + int \<times> payload option)" where
  "json_rpc rep st method obj action ps =
     (let rq = \<lparr>req_id = request_num st, req_token = session_param (session st),
                req_method = method, req_obj = obj, req_action = action, req_params = ps\<rparr>
      in case rep (request_num st) of
           NoResponse \<Rightarrow> (st, [Rpc rq NoResponse], Inl TransportError)
         | Fault c m \<Rightarrow>
             (st\<lparr>request_num := request_num st + 1\<rparr>, [Rpc rq (Fault c m)], Inl (JsonRPCError c m))
         | Reply r p \<Rightarrow>
             (st\<lparr>request_num := request_num st + 1\<rparr>, [Rpc rq (Reply r p)], Inr (r, p)))"

subsection \<open>\<^verbatim>\<open>_any_int\<close> and the signal values\<close>

fun any_int :: "(string \<Rightarrow> real option) \<Rightarrow> (string \<rightharpoonup> string) \<Rightarrow> string list \<Rightarrow> int option" where
  "any_int pf info [] = None"
| "any_int pf info (key # keys) =
     (case info key of
        None \<Rightarrow> any_int pf info keys
      | Some v \<Rightarrow>
          (case pf (py_strip v) of
             None \<Rightarrow> any_int pf info keys
           | Some x \<Rightarrow> Some (py_trunc x)))"

text \<open>\<^verbatim>\<open>x or d\<close> for an optional integer: \<open>None\<close> and \<open>0\<close> are both falsy.\<close>

definition py_or :: "int option \<Rightarrow> int \<Rightarrow> int" where
  "py_or x d = (case x of None \<Rightarrow> d | Some v \<Rightarrow> if v = 0 then d else v)"

definition signal_keys :: "string list" where
  "signal_keys = [''signal'', ''rsrp'', ''rscp'', ''rsrq'']"

definition rssi_of :: "(string \<Rightarrow> real option) \<Rightarrow> (string \<rightharpoonup> string) \<Rightarrow> int" where
  "rssi_of pf mobile = - (py_or (any_int pf mobile signal_keys) (- 255))"

definition snr_of :: "(string \<Rightarrow> real option) \<Rightarrow> (string \<rightharpoonup> string) \<Rightarrow> int" where
  "snr_of pf mobile = \<bar>py_or (any_int pf mobile [''sinr'']) (- 255)\<bar>"

subsection \<open>\<^verbatim>\<open>idle_task\<close>: login\<close>

text \<open>Lines 254 to 265.  The result \<open>Inr True\<close> is "go on", \<open>Inr False\<close> is the \<^verbatim>\<open>return\<close>
  after a failed login, \<open>Inl e\<close> an exception that leaves \<^verbatim>\<open>idle_task\<close> (the login call is
  outside every \<^verbatim>\<open>try\<close>).\<close>

definition login_phase ::
  "settings \<Rightarrow> env \<Rightarrow> real \<Rightarrow> module_state \<Rightarrow> module_state \<times> effect list \<times> (error + bool)" where
  "login_phase cfg ev now st =
     (if session st = None then
        (if now - last_login st > 5 then
           (let st1 = st\<lparr>last_login := now\<rparr> in
            case json_rpc (reply ev) st1 ''call'' ''session'' ''login''
                   (LoginParams (username cfg) (password cfg)) of
              (st2, es, Inl e) \<Rightarrow> (st2, es, Inl e)
            | (st2, es, Inr (login_result, login_response)) \<Rightarrow>
                if login_result = 0 then
                  (case login_response of
                     None \<Rightarrow> (st2, es, Inl TypeError)
                   | Some (LoginPayload tok) \<Rightarrow>
                       (st2\<lparr>session := Some tok\<rparr>, es @ [Print SessionStarted], Inr True)
                   | Some _ \<Rightarrow> (st2, es, Inl KeyError))
                else (st2, es @ [Print LoginFailed], Inr False))
         else (st, [], Inr True))
      else (st, [], Inr True))"

subsection \<open>\<^verbatim>\<open>idle_task\<close>: the telemetry poll\<close>

text \<open>The loop over \<^verbatim>\<open>networks.values()\<close>: the \<^verbatim>\<open>modem\<close> of the first section that has one.\<close>

fun first_modem :: "(string \<times> (string \<rightharpoonup> string)) list \<Rightarrow> string option" where
  "first_modem [] = None"
| "first_modem ((name, network) # rest) =
     (case network ''modem'' of
        Some m \<Rightarrow> Some m
      | None \<Rightarrow> first_modem rest)"

text \<open>Lines 268 to 281.\<close>

definition select_modem ::
  "env \<Rightarrow> module_state \<Rightarrow> module_state \<times> effect list \<times> (error + unit)" where
  "select_modem ev st =
     (if modem st = None then
        (case json_rpc (reply ev) st ''call'' ''uci'' ''get'' (ConfigParam ''network'') of
           (st1, es, Inl e) \<Rightarrow> (st1, es, Inl e)
         | (st1, es, Inr (result, info)) \<Rightarrow>
             if result = 0 then
               (case info of
                  None \<Rightarrow> (st1, es, Inl TypeError)
                | Some (ValuesPayload networks) \<Rightarrow>
                    (case first_modem networks of
                       None \<Rightarrow> (st1, es, Inr ())
                     | Some m \<Rightarrow> (st1\<lparr>modem := Some m\<rparr>, es @ [Print (ModemSelected m)], Inr ()))
                | Some _ \<Rightarrow> (st1, es, Inl KeyError))
             else (st1, es, Inr ()))
      else (st, [], Inr ()))"

text \<open>The loop of lines 300 to 305; \<^verbatim>\<open>int(mcc)\<close> and \<^verbatim>\<open>int(mnc)\<close> are evaluated at each
  link that has the cellular message, and may raise there.\<close>

fun send_links :: "int \<Rightarrow> int \<Rightarrow> string \<Rightarrow> string \<Rightarrow> link list \<Rightarrow> effect list \<times> error option" where
  "send_links rssi snr mcc mnc [] = ([], None)"
| "send_links rssi snr mcc mnc (l # ls) =
     (if has_cellular_status l then
        (case py_int mcc of
           None \<Rightarrow> ([], Some ValueError)
         | Some c \<Rightarrow>
             (case py_int mnc of
                None \<Rightarrow> ([], Some ValueError)
              | Some n \<Rightarrow>
                  (case send_links rssi snr mcc mnc ls of
                     (es, r) \<Rightarrow> (CellularStatus l rssi c n # es, r))))
      else
        (case send_links rssi snr mcc mnc ls of
           (es, r) \<Rightarrow> (RadioStatus l rssi snr # es, r)))"

text \<open>Lines 286 to 305, after \<^verbatim>\<open>mobile_info\<close> has answered with code 0.\<close>

definition report_mobile ::
  "(string \<Rightarrow> real option) \<Rightarrow> settings \<Rightarrow> env \<Rightarrow> real \<Rightarrow> module_state \<Rightarrow> payload option
     \<Rightarrow> module_state \<times> effect list \<times> (error + bool)" where
  "report_mobile pf cfg ev now st info =
     (let links0 = (if sendalllinks cfg then mav_master st else [master ev]);
          links = (if sendalloutputs cfg then links0 @ mav_outputs ev else links0);
          st1 = (if sendalllinks cfg then st\<lparr>mav_master := links\<rparr> else st)
      in case info of
           None \<Rightarrow> (st1, [], Inl TypeError)
         | Some (MobilePayload mobile) \<Rightarrow>
             (let rssi = rssi_of pf mobile;
                  snr = snr_of pf mobile
              in case mobile ''imsi'' of
                   None \<Rightarrow> (st1, [], Inl KeyError)
                 | Some v \<Rightarrow>
                     (let imsi = py_strip v;
                          mcc = take 3 imsi;
                          mnc = take 2 (drop 3 imsi);
                          st2 = st1\<lparr>last_status := Some mobile, last_update := now\<rparr>
                      in case send_links rssi snr mcc mnc links of
                           (es, None) \<Rightarrow> (st2, es, Inr True)
                         | (es, Some e) \<Rightarrow> (st2, es, Inl e)))
         | Some _ \<Rightarrow> (st1, [], Inl KeyError))"

text \<open>The body of the \<^verbatim>\<open>try\<close> of lines 268 to 305.  \<open>Inr False\<close> is the \<^verbatim>\<open>return\<close> of line 283.\<close>

definition poll_body ::
  "(string \<Rightarrow> real option) \<Rightarrow> settings \<Rightarrow> env \<Rightarrow> real \<Rightarrow> module_state
     \<Rightarrow> module_state \<times> effect list \<times> (error + bool)" where
  "poll_body pf cfg ev now st =
     (case select_modem ev st of
        (st1, es1, Inl e) \<Rightarrow> (st1, es1, Inl e)
      | (st1, es1, Inr u) \<Rightarrow>
          (case modem st1 of
             None \<Rightarrow> (st1, es1, Inr False)
           | Some m \<Rightarrow>
               (case json_rpc (reply ev) st1 ''call'' ''vuci.network.mobile'' ''mobile_info''
                       (ModemParam m) of
                  (st2, es2, Inl e) \<Rightarrow> (st2, es1 @ es2, Inl e)
                | (st2, es2, Inr (result, info)) \<Rightarrow>
                    if result = 0 then
                      (case report_mobile pf cfg ev now st2 info of
                         (st3, es3, r) \<Rightarrow> (st3, es1 @ es2 @ es3, r))
                    else (st2, es1 @ es2, Inr True))))"

text \<open>The \<^verbatim>\<open>except JsonRPCError\<close> clause, the same at lines 307 to 310 and 324 to 327: the
  fault is swallowed, and the session is cleared when the code is the string
  \<^verbatim>\<open>'-32002'\<close>.  Any other exception goes on.\<close>

definition invalid_session :: json_code where
  "invalid_session = CodeStr ''-32002''"

definition on_error :: "module_state \<Rightarrow> effect list \<Rightarrow> error \<Rightarrow> module_state \<times> effect list \<times> error option" where
  "on_error st es e =
     (case e of
        JsonRPCError c m \<Rightarrow>
          if c = invalid_session then (st\<lparr>session := None\<rparr>, es @ [Print InvalidSession], None)
          else (st, es, None)
      | _ \<Rightarrow> (st, es, Some e))"

text \<open>Lines 266 to 310.  \<^verbatim>\<open>1 / freq\<close> raises for the frequency 0.\<close>

definition poll_phase ::
  "(string \<Rightarrow> real option) \<Rightarrow> settings \<Rightarrow> env \<Rightarrow> real \<Rightarrow> module_state
     \<Rightarrow> module_state \<times> effect list \<times> (error + bool)" where
  "poll_phase pf cfg ev now st =
     (if freq cfg = 0 then (st, [], Inl ZeroDivisionError)
      else if now - last_update st > 1 / freq cfg then
        (case poll_body pf cfg ev now st of
           (st1, es, Inl e) \<Rightarrow>
             (case on_error st1 es e of
                (st2, es2, None) \<Rightarrow> (st2, es2, Inr True)
              | (st2, es2, Some e2) \<Rightarrow> (st2, es2, Inl e2))
         | (st1, es, Inr go) \<Rightarrow> (st1, es, Inr go))
      else (st, [], Inr True))"

subsection \<open>\<^verbatim>\<open>idle_task\<close>: the status templates\<close>

text \<open>The body of the \<^verbatim>\<open>try\<close> of lines 316 to 323: two \<^verbatim>\<open>uci set\<close> calls, one \<^verbatim>\<open>uci apply\<close>, the
  line printed when a code is not 0, the timestamp.\<close>

definition publish_body ::
  "env \<Rightarrow> real \<Rightarrow> module_state \<Rightarrow> gpos \<Rightarrow> module_state \<times> effect list \<times> (error + unit)" where
  "publish_body ev now st pos =
     (case json_rpc (reply ev) st ''call'' ''uci'' ''set''
             (SetMessage ''sms_utils'' ''cfg0392bd'' pos) of
        (st1, es1, Inl e) \<Rightarrow> (st1, es1, Inl e)
      | (st1, es1, Inr (sr, p1)) \<Rightarrow>
          (case json_rpc (reply ev) st1 ''call'' ''uci'' ''set''
                  (SetMessage ''events_reporting'' ''cfg0292bd'' pos) of
             (st2, es2, Inl e) \<Rightarrow> (st2, es1 @ es2, Inl e)
           | (st2, es2, Inr (sr2, p2)) \<Rightarrow>
               (case json_rpc (reply ev) st2 ''call'' ''uci'' ''apply'' (ApplyTimeout 10) of
                  (st3, es3, Inl e) \<Rightarrow> (st3, es1 @ es2 @ es3, Inl e)
                | (st3, es3, Inr (ar, p3)) \<Rightarrow>
                    (st3\<lparr>last_status_message_update := now\<rparr>,
                     es1 @ es2 @ es3 @
                       (if sr \<noteq> 0 \<or> sr2 \<noteq> 0 \<or> ar \<noteq> 0 then [Print (StatusSet sr sr2 ar)] else []),
                     Inr ()))))"

text \<open>Lines 311 to 329.\<close>

definition publish_phase ::
  "env \<Rightarrow> real \<Rightarrow> module_state \<Rightarrow> module_state \<times> effect list \<times> error option" where
  "publish_phase ev now st =
     (if session st \<noteq> None then
        (if now - last_status_message_update st > 30 then
           (case position ev of
              Some pos \<Rightarrow>
                (case publish_body ev now st pos of
                   (st1, es, Inl e) \<Rightarrow> on_error st1 es e
                 | (st1, es, Inr u) \<Rightarrow> (st1, es, None))
            | None \<Rightarrow> (st, [Print PositionUnknown], None))
         else (st, [], None))
      else (st, [], None))"

subsection \<open>\<^verbatim>\<open>idle_task\<close>\<close>

text \<open>The result is the new state, the effects in order, and the exception that left
  the function, if one did.\<close>

definition idle_task ::
  "(string \<Rightarrow> real option) \<Rightarrow> settings \<Rightarrow> env \<Rightarrow> real \<Rightarrow> module_state
     \<Rightarrow> module_state \<times> effect list \<times> error option" where
  "idle_task pf cfg ev now st =
     (if \<not> started st then (st, [], None)
      else
        (case login_phase cfg ev now st of
           (st1, es1, Inl e) \<Rightarrow> (st1, es1, Some e)
         | (st1, es1, Inr False) \<Rightarrow> (st1, es1, None)
         | (st1, es1, Inr True) \<Rightarrow>
             (case poll_phase pf cfg ev now st1 of
                (st2, es2, Inl e) \<Rightarrow> (st2, es1 @ es2, Some e)
              | (st2, es2, Inr False) \<Rightarrow> (st2, es1 @ es2, None)
              | (st2, es2, Inr True) \<Rightarrow>
                  (case publish_phase ev now st2 of
                     (st3, es3, r) \<Rightarrow> (st3, es1 @ es2 @ es3, r)))))"

subsection \<open>\<^verbatim>\<open>incoming_sms\<close>: the \<^verbatim>\<open>move\<close> command\<close>

text \<open>What the SMS handler reads of the vehicle and of the host: \<^verbatim>\<open>self.master\<close> (flight
  mode, arm state, cached messages), the targets, and whether the \<^verbatim>\<open>cmdlong\<close> module is
  loaded.\<close>

record vehicle =
  flightmode :: string
  motors_armed :: bool
  msg_sys_status :: "sys_status option"
  msg_position :: "gpos option"
  msg_wind :: "wind option"
  target_system :: nat
  target_component :: nat
  settings_target_system :: nat
  cmdlong_loaded :: bool

text \<open>\<^verbatim>\<open>math.radians\<close> of an integer bearing.\<close>

definition radians :: "int \<Rightarrow> real" where
  "radians b = real_of_int b * pi / 180"

definition compass_words :: "string list" where
  "compass_words = [''s'', ''e'', ''w'', ''n'', ''north'', ''south'', ''east'', ''west'']"

text \<open>\<^verbatim>\<open>d if direction in pos else -d if direction in neg else 0\<close>\<close>

definition axis_part :: "real \<Rightarrow> string \<Rightarrow> string list \<Rightarrow> string list \<Rightarrow> real" where
  "axis_part d direction pos neg =
     (if direction \<in> set pos then d else if direction \<in> set neg then - d else 0)"

text \<open>Lines 115 to 148, reached with 3 or 5 tokens: the frame and the displacement.\<close>

definition move_displacement ::
  "(string \<Rightarrow> real option) \<Rightarrow> string list \<Rightarrow> error + frame \<times> real \<times> real" where
  "move_displacement pf args =
     (case pf (args ! 1) of
        None \<Rightarrow> Inl ValueError
      | Some distance1 \<Rightarrow>
          (case (if length args = 5 then pf (args ! 3) else Some 0) of
             None \<Rightarrow> Inl ValueError
           | Some distance2 \<Rightarrow>
               (let direction1 = py_lower (args ! 2);
                    direction2 = (if length args = 5 then py_lower (args ! 4) else []);
                    bearing = (if direction2 = [] then py_int direction1 else None)
                in case bearing of
                     Some b \<Rightarrow>
                       Inr (MAV_FRAME_LOCAL_OFFSET_NED,
                            distance1 * cos (radians b), distance1 * sin (radians b))
                   | None \<Rightarrow>
                       if direction1 \<in> set compass_words \<and> direction2 \<in> set ([] # compass_words)
                       then
                         Inr (MAV_FRAME_LOCAL_OFFSET_NED,
                              axis_part distance1 direction1 [''n'', ''north''] [''s'', ''south'']
                                + axis_part distance2 direction2 [''n'', ''north''] [''s'', ''south''],
                              axis_part distance1 direction1 [''e'', ''east''] [''w'', ''west'']
                                + axis_part distance2 direction2 [''e'', ''east''] [''w'', ''west''])
                       else
                         Inr (MAV_FRAME_BODY_OFFSET_FRD,
                              axis_part distance1 direction1 [''fwd''] [''aft'']
                                + axis_part distance2 direction2 [''fwd''] [''aft''],
                              axis_part distance1 direction1 [''stb''] [''port'']
                                + axis_part distance2 direction2 [''stb''] [''port'']))))"

text \<open>Lines 109 to 162.  The handler returns \<^verbatim>\<open>"OK"\<close> after a usage or mode reply, and
  falls to the final \<^verbatim>\<open>return "Thanks"\<close> otherwise.\<close>

definition cmd_move ::
  "(string \<Rightarrow> real option) \<Rightarrow> vehicle \<Rightarrow> string \<Rightarrow> string list \<Rightarrow> effect list \<times> (error + string)" where
  "cmd_move pf veh sender args =
     (if length args \<noteq> 3 \<and> length args \<noteq> 5 then ([SendSms sender UsageMove], Inr ''OK'')
      else if flightmode veh \<noteq> ''GUIDED'' then
        ([SendSms sender (NotGuided (flightmode veh))], Inr ''OK'')
      else
        (case move_displacement pf args of
           Inl e \<Rightarrow> ([], Inl e)
         | Inr (fr, distance_x, distance_y) \<Rightarrow>
             (Print (Moving distance_x distance_y) #
                (if \<bar>distance_x\<bar> > 0.5 \<or> \<bar>distance_y\<bar> > 0.5
                 then [Vehicle (SetPositionTargetLocalNed (settings_target_system veh) fr
                                  distance_x distance_y)]
                 else []),
              Inr ''Thanks'')))"

subsection \<open>\<^verbatim>\<open>incoming_sms\<close>: the \<^verbatim>\<open>goto\<close> command\<close>

text \<open>\<^verbatim>\<open>1 if tok[0] == c else -1\<close>; \<^verbatim>\<open>tok[0]\<close> raises on the empty string.\<close>

definition hemisphere_sign :: "char \<Rightarrow> string \<Rightarrow> error + real" where
  "hemisphere_sign c tok =
     (case tok of
        [] \<Rightarrow> Inl IndexError
      | h # rest \<Rightarrow> Inr (if h = c then 1 else - 1))"

text \<open>Lines 170 to 178.  With another number of tokens both coordinates are \<^verbatim>\<open>None\<close>, and
  formatting them at line 179 raises.\<close>

definition goto_coordinates ::
  "(string \<Rightarrow> real option) \<Rightarrow> string list \<Rightarrow> error + real \<times> real" where
  "goto_coordinates pf args =
     (if length args = 3 then
        (case pf (args ! 1) of
           None \<Rightarrow> Inl ValueError
         | Some la \<Rightarrow>
             (case pf (args ! 2) of
                None \<Rightarrow> Inl ValueError
              | Some lo \<Rightarrow> Inr (la, lo)))
      else if length args = 5 then
        (case pf (py_rstrip degree_sign (args ! 1)) of
           None \<Rightarrow> Inl ValueError
         | Some la \<Rightarrow>
             (case hemisphere_sign CHR ''N'' (args ! 2) of
                Inl e \<Rightarrow> Inl e
              | Inr sla \<Rightarrow>
                  (case pf (py_rstrip degree_sign (args ! 3)) of
                     None \<Rightarrow> Inl ValueError
                   | Some lo \<Rightarrow>
                       (case hemisphere_sign CHR ''E'' (args ! 4) of
                          Inl e \<Rightarrow> Inl e
                        | Inr slo \<Rightarrow> Inr (la * sla, lo * slo)))))
      else Inl TypeError)"

text \<open>Lines 164 to 190.\<close>

definition cmd_goto ::
  "(string \<Rightarrow> real option) \<Rightarrow> vehicle \<Rightarrow> string \<Rightarrow> string \<Rightarrow> string list
     \<Rightarrow> effect list \<times> (error + string)" where
  "cmd_goto pf veh sender cmd args =
     (if length args \<noteq> 3 \<and> length args \<noteq> 5 then ([SendSms sender (UsageGoto cmd)], Inr ''OK'')
      else if flightmode veh \<noteq> ''GUIDED'' then
        ([SendSms sender (NotGuided (flightmode veh))], Inr ''OK'')
      else
        (case goto_coordinates pf args of
           Inl e \<Rightarrow> ([], Inl e)
         | Inr (la, lo) \<Rightarrow>
             ([SendSms sender (GoingTo la lo),
               Vehicle (SetPositionTargetGlobalInt (settings_target_system veh)
                          (py_trunc (la * 10000000)) (py_trunc (lo * 10000000)))],
              Inr ''Thanks'')))"

subsection \<open>\<^verbatim>\<open>incoming_sms\<close>\<close>

text \<open>Lines 78 to 208: the dispatch on the lower-cased first token.\<close>

definition dispatch ::
  "(string \<Rightarrow> real option) \<Rightarrow> vehicle \<Rightarrow> string \<Rightarrow> string list \<Rightarrow> effect list \<times> (error + string)" where
  "dispatch pf veh sender args =
     (case args of
        [] \<Rightarrow> ([], Inl IndexError)
      | a0 # rest \<Rightarrow>
          (let cmd = py_lower a0 in
           if cmd = ''arm'' then
             ([Vehicle (ArmCommand (target_system veh) (target_component veh))], Inr ''Thanks'')
           else if cmd = ''status'' then
             (case msg_sys_status veh of
                None \<Rightarrow> ([], Inl AttributeError)
              | Some status \<Rightarrow>
                  (case msg_position veh of
                     None \<Rightarrow> ([], Inl AttributeError)
                   | Some pos \<Rightarrow>
                       (case msg_wind veh of
                          None \<Rightarrow> ([], Inl AttributeError)
                        | Some w \<Rightarrow>
                            ([SendSms sender
                                (StatusText (motors_armed veh) (flightmode veh) status pos w)],
                             Inr ''Thanks''))))
           else if cmd \<in> set [''rtl'', ''auto'', ''guided'', ''hold''] then
             ([Vehicle (SetMode (py_upper cmd))], Inr ''Thanks'')
           else if cmd \<in> set [''loit'', ''loiter''] then
             ([Vehicle (SetMode ''LOITER'')], Inr ''Thanks'')
           else if cmd = ''move'' then cmd_move pf veh sender args
           else if cmd \<in> set [''goto'', ''go''] then cmd_goto pf veh sender cmd args
           else if cmd = ''pause'' then ([Vehicle (SetMode ''LOITER'')], Inr ''Thanks'')
           else if cmd = ''speed'' then
             (if length args \<noteq> 2 then ([SendSms sender UsageSpeed], Inr ''OK'')
              else if cmdlong_loaded veh then ([Vehicle (DoChangeSpeed rest)], Inr ''Thanks'')
              else ([], Inl AttributeError))
           else if cmd \<in> set [''start'', ''resume''] then
             ((if flightmode veh = ''AUTO'' then [Vehicle (SetMode ''LOITER'')] else [])
                @ [Vehicle (SetMode ''AUTO'')],
              Inr ''Thanks'')
           else if cmd = ''wp'' then
             (if length args \<noteq> 2 then ([SendSms sender UsageWp], Inr ''OK'')
              else
                (case py_int (args ! 1) of
                   None \<Rightarrow> ([], Inl ValueError)
                 | Some n \<Rightarrow> ([Vehicle (WaypointSetCurrent n)], Inr ''Thanks'')))
           else ([SendSms sender (UnknownCommand cmd)], Inr ''Thanks'')))"

text \<open>Lines 71 to 212.  The request is the map of its query parameters.  The method
  assigns no field of the module; the state is returned so that this can be stated.\<close>

definition incoming_sms ::
  "(string \<Rightarrow> string option) \<Rightarrow> (string \<Rightarrow> real option) \<Rightarrow> settings \<Rightarrow> vehicle \<Rightarrow> module_state
     \<Rightarrow> (string \<rightharpoonup> string) \<Rightarrow> module_state \<times> effect list \<times> (error + string)" where
  "incoming_sms dec pf cfg veh st req =
     (if \<not> sms_enabled cfg then (st, [], Inr ''DISABLED'')
      else
        (case req ''sender'' of
           None \<Rightarrow> (st, [], Inl KeyError)
         | Some sender \<Rightarrow>
             (case req ''message'' of
                None \<Rightarrow> (st, [], Inl KeyError)
              | Some m64 \<Rightarrow>
                  (case dec m64 of
                     None \<Rightarrow> (st, [], Inl DecodeError)
                   | Some raw \<Rightarrow>
                       (let message = py_strip raw in
                        if starts_with ''!!'' message then
                          (case dispatch pf veh sender (tokens (drop 2 message)) of
                             (es, r) \<Rightarrow> (st, Print (SmsFrom sender message) # es, r))
                        else (st, [Print (SmsFrom sender message)], Inr ''Thanks''))))))"

subsection \<open>Reading a trace of effects\<close>

fun is_telemetry :: "effect \<Rightarrow> bool" where
  "is_telemetry (CellularStatus l r c n) = True"
| "is_telemetry (RadioStatus l r s) = True"
| "is_telemetry e = False"

text \<open>The requests of a trace, in order, and the codes of the faults answered.\<close>

fun requests :: "effect list \<Rightarrow> rpc_request list" where
  "requests [] = []"
| "requests (Rpc rq r # es) = rq # requests es"
| "requests (e # es) = requests es"

fun fault_codes :: "effect list \<Rightarrow> json_code list" where
  "fault_codes [] = []"
| "fault_codes (Rpc rq (Fault c m) # es) = c # fault_codes es"
| "fault_codes (e # es) = fault_codes es"

subsection \<open>Notions used in the statements\<close>

text \<open>A key of the status map that yields no integer: absent, or present with a value that
  \<^verbatim>\<open>float\<close> rejects.\<close>

definition unparsed :: "(string \<Rightarrow> real option) \<Rightarrow> (string \<rightharpoonup> string) \<Rightarrow> string \<Rightarrow> bool" where
  "unparsed pf info key = (case info key of None \<Rightarrow> True | Some v \<Rightarrow> pf (py_strip v) = None)"

text \<open>The fault code an exception carries, if it is a \<^verbatim>\<open>JsonRPCError\<close>; the requests of the
  poll (\<^verbatim>\<open>uci get\<close>, \<^verbatim>\<open>mobile_info\<close>) and of the status templates (\<^verbatim>\<open>uci set\<close>, \<^verbatim>\<open>uci apply\<close>);
  a telemetry message that carries given signal values; the template calls of a trace with
  their answers; whether a trace holds a login call.\<close>

fun error_code :: "error \<Rightarrow> json_code list" where
  "error_code (JsonRPCError c m) = [c]"
| "error_code e = []"

fun raised_code :: "error + 'a \<Rightarrow> json_code list" where
  "raised_code (Inl e) = error_code e"
| "raised_code (Inr x) = []"

definition poll_action :: "rpc_request \<Rightarrow> bool" where
  "poll_action rq = (req_action rq = ''get'' \<or> req_action rq = ''mobile_info'')"

fun reports :: "int \<Rightarrow> int \<Rightarrow> effect \<Rightarrow> bool" where
  "reports rssi snr (CellularStatus l r c n) = (r = rssi)"
| "reports rssi snr (RadioStatus l r s) = (r = rssi \<and> s = snr)"
| "reports rssi snr e = False"

fun is_reply :: "response \<Rightarrow> bool" where
  "is_reply (Reply c p) = True"
| "is_reply r = False"

definition publish_action :: "rpc_request \<Rightarrow> bool" where
  "publish_action rq = (req_action rq = ''set'' \<or> req_action rq = ''apply'')"

fun publish_calls :: "effect list \<Rightarrow> (string \<times> response) list" where
  "publish_calls [] = []"
| "publish_calls (Rpc rq r # es) =
     (if publish_action rq then (req_action rq, r) # publish_calls es else publish_calls es)"
| "publish_calls (e # es) = publish_calls es"

definition login_issued :: "effect list \<Rightarrow> bool" where
  "login_issued es = list_ex (\<lambda>rq. req_action rq = ''login'') (requests es)"

subsection \<open>Concrete inputs\<close>

text \<open>A decoder on the two bodies used below (each with its true base64 text), and a
  configuration, a vehicle in guided mode and the module state after \<^verbatim>\<open>teltonika start\<close>.\<close>

definition b64_examples :: "string \<Rightarrow> string option" where
  "b64_examples = map_of
     [(''ISFtb3ZlIDAuMyBu'', ''!!move 0.3 n''),
      (''aGVsbG8gdGhlcmU='', ''hello there'')]"

definition settings0 :: settings where
  "settings0 = \<lparr>username = Some ''admin'', password = Some ''secret'', freq = 1,
     sendalllinks = False, sendalloutputs = False, sms_enabled = True\<rparr>"

definition vehicle0 :: vehicle where
  "vehicle0 = \<lparr>flightmode = ''GUIDED'', motors_armed = True, msg_sys_status = None,
     msg_position = None, msg_wind = None, target_system = 1, target_component = 1,
     settings_target_system = 1, cmdlong_loaded = True\<rparr>"

definition state0 :: module_state where
  "state0 = \<lparr>started = True, session = None, last_status = None, last_update = 0,
     last_login = 0, request_num = 1, last_status_message_update = 0, modem = None,
     mav_master = []\<rparr>"

text \<open>Gateways that answer every call alike (a refusal with code 1, the invalid-session
  fault with the string code, the same fault with a numeric code), one that accepts the
  status templates with a non-zero code for the second, and a module with a session and a
  modem.\<close>

definition env_refusing :: env where
  "env_refusing = \<lparr>reply = (\<lambda>n. Reply 1 None), master = Link 0 False, mav_outputs = [],
     position = None\<rparr>"

definition env_expired :: env where
  "env_expired = \<lparr>reply = (\<lambda>n. Fault (CodeStr ''-32002'') ''Access denied''),
     master = Link 0 False, mav_outputs = [], position = None\<rparr>"

definition env_denied :: env where
  "env_denied = \<lparr>reply = (\<lambda>n. Fault (CodeInt (- 32002)) ''Access denied''),
     master = Link 0 False, mav_outputs = [], position = None\<rparr>"

definition env_publishing :: env where
  "env_publishing = \<lparr>reply = (\<lambda>n. Reply (if n = 8 then 1 else 0) None), master = Link 0 False,
     mav_outputs = [],
     position = Some \<lparr>pos_lat = 546872000, pos_lon = 252797000, pos_vx = 0, pos_vy = 0,
       pos_hdg = 0\<rparr>\<rparr>"

definition state_live :: module_state where
  "state_live = state0\<lparr>session := Some ''5f3c9a'', modem := Some ''3-1'', last_login := 2,
     request_num := 7\<rparr>"

text \<open>A gateway that answers every call with code 0 and a given status map.\<close>

definition env_mobile :: "(string \<rightharpoonup> string) \<Rightarrow> env" where
  "env_mobile m = \<lparr>reply = (\<lambda>n. Reply 0 (Some (MobilePayload m))), master = Link 0 False,
     mav_outputs = [], position = None\<rparr>"

section \<open>Properties\<close>

subsection \<open>Signal values\<close>

lemma any_int_skip:
  "list_all (unparsed pf info) ks1 \<Longrightarrow> any_int pf info (ks1 @ ks) = any_int pf info ks"
  by (induction ks1) (auto simp: unparsed_def split: option.splits)

lemma any_int_hit:
  "list_all (unparsed pf info) ks1 \<Longrightarrow> info k = Some v \<Longrightarrow> pf (py_strip v) = Some x \<Longrightarrow>
     any_int pf info (ks1 @ k # ks2) = Some (py_trunc x)"
  by (simp add: any_int_skip)


lemmas str_eval = py_strip_def is_space_def is_digit_def digit_val_def py_int_def
  dec_float_def dec_unsigned_def digits_value_def py_trunc_def

lemma absent_unparsed: "list_all (\<lambda>k. info k = None) ks \<Longrightarrow> list_all (unparsed pf info) ks"
  by (induction ks) (auto simp: unparsed_def)

subsection \<open>The SMS handler\<close>

lemma py_lower_words:
  "py_lower ''n'' = ''n''" "py_lower ''s'' = ''s''" "py_lower ''e'' = ''e''" "py_lower ''w'' = ''w''"
  by (simp_all add: py_lower_def lower_char_def)

lemma py_int_words:
  "py_int ''n'' = None" "py_int ''s'' = None" "py_int ''e'' = None" "py_int ''w'' = None"
  by (simp_all add: str_eval)

text \<open>
  C6.  For every distance token that parses, \<^verbatim>\<open>move d n\<close> and \<^verbatim>\<open>move d s\<close>, handled as
  independent calls, compute displacement vectors that are negations of one another, and so
  do \<^verbatim>\<open>move d e\<close> and \<^verbatim>\<open>move d w\<close>.
\<close>

theorem C6_opposite_compass_moves_negate:
  "pf t = Some d \<longrightarrow>
     (\<exists>x y. move_displacement pf [c, t, ''n''] = Inr (MAV_FRAME_LOCAL_OFFSET_NED, x, y) \<and>
            move_displacement pf [c, t, ''s''] = Inr (MAV_FRAME_LOCAL_OFFSET_NED, - x, - y)) \<and>
     (\<exists>x y. move_displacement pf [c, t, ''e''] = Inr (MAV_FRAME_LOCAL_OFFSET_NED, x, y) \<and>
            move_displacement pf [c, t, ''w''] = Inr (MAV_FRAME_LOCAL_OFFSET_NED, - x, - y))"
  by (simp add: move_displacement_def py_lower_words py_int_words compass_words_def axis_part_def)

theorem C6_opposite_compass_moves_negate_witness:
  "dec_float ''10'' = Some 10 \<and>
   move_displacement dec_float [''move'', ''10'', ''n''] = Inr (MAV_FRAME_LOCAL_OFFSET_NED, 10, 0) \<and>
   move_displacement dec_float [''move'', ''10'', ''s''] = Inr (MAV_FRAME_LOCAL_OFFSET_NED, - 10, 0) \<and>
   move_displacement dec_float [''move'', ''10'', ''e''] = Inr (MAV_FRAME_LOCAL_OFFSET_NED, 0, 10) \<and>
   move_displacement dec_float [''move'', ''10'', ''w''] = Inr (MAV_FRAME_LOCAL_OFFSET_NED, 0, - 10)"
proof -
  have p: "dec_float ''10'' = Some 10" by (simp add: str_eval)
  have n: "move_displacement dec_float [''move'', ''10'', ''n''] = Inr (MAV_FRAME_LOCAL_OFFSET_NED, 10, 0)"
    by (simp add: move_displacement_def p py_lower_words py_int_words compass_words_def axis_part_def)
  have e: "move_displacement dec_float [''move'', ''10'', ''e''] = Inr (MAV_FRAME_LOCAL_OFFSET_NED, 0, 10)"
    by (simp add: move_displacement_def p py_lower_words py_int_words compass_words_def axis_part_def)
  from C6_opposite_compass_moves_negate [of dec_float "''10''" 10 "''move''"] p n e
  show ?thesis by auto
qed

text \<open>
  C7.  With the SMS feature disabled the handler returns \<^verbatim>\<open>"DISABLED"\<close> whatever the request
  holds, before it reads or decodes anything.  For an SMS whose decoded, stripped body does
  not start with \<^verbatim>\<open>!!\<close> it returns \<^verbatim>\<open>"Thanks"\<close>, leaves the module state as it was, and its only
  effect is the console line: no vehicle command, no RPC call, no reply SMS.
\<close>

theorem C7_plain_sms_is_acknowledged:
  "(\<not> sms_enabled cfg \<longrightarrow> incoming_sms dec pf cfg veh st req = (st, [], Inr ''DISABLED'')) \<and>
   (sms_enabled cfg \<and> req ''sender'' = Some sender \<and> req ''message'' = Some m64 \<and>
      dec m64 = Some raw \<and> \<not> starts_with ''!!'' (py_strip raw) \<longrightarrow>
      incoming_sms dec pf cfg veh st req
        = (st, [Print (SmsFrom sender (py_strip raw))], Inr ''Thanks''))"
  by (simp add: incoming_sms_def Let_def)

theorem C7_plain_sms_is_acknowledged_witness:
  "sms_enabled settings0 \<and>
   b64_examples ''aGVsbG8gdGhlcmU='' = Some ''hello there'' \<and>
   \<not> starts_with ''!!'' (py_strip ''hello there'') \<and>
   incoming_sms b64_examples dec_float settings0 vehicle0 state0
       [''sender'' \<mapsto> ''+37060000000'', ''message'' \<mapsto> ''aGVsbG8gdGhlcmU='']
     = (state0, [Print (SmsFrom ''+37060000000'' ''hello there'')], Inr ''Thanks'') \<and>
   incoming_sms b64_examples dec_float (settings0\<lparr>sms_enabled := False\<rparr>) vehicle0 state0
       Map.empty
     = (state0, [], Inr ''DISABLED'')"
  using C7_plain_sms_is_acknowledged [of settings0 b64_examples dec_float vehicle0 state0
      "[''sender'' \<mapsto> ''+37060000000'', ''message'' \<mapsto> ''aGVsbG8gdGhlcmU='']"
      "''+37060000000''" "''aGVsbG8gdGhlcmU=''" "''hello there''"]
    C7_plain_sms_is_acknowledged [of "settings0\<lparr>sms_enabled := False\<rparr>" b64_examples dec_float
      vehicle0 state0 Map.empty]
  by (simp add: settings0_def b64_examples_def starts_with_def str_eval)







subsection \<open>The phases of a tick\<close>

lemma requests_append [simp]: "requests (xs @ ys) = requests xs @ requests ys"
  by (induction xs rule: requests.induct) simp_all

lemma fault_codes_append [simp]: "fault_codes (xs @ ys) = fault_codes xs @ fault_codes ys"
  by (induction xs rule: fault_codes.induct) simp_all

lemma fault_in_trace: "Rpc rq (Fault c m) \<in> set es \<Longrightarrow> c \<in> set (fault_codes es)"
  by (induction es rule: fault_codes.induct) auto

lemma request_in_trace: "Rpc rq resp \<in> set es \<Longrightarrow> rq \<in> set (requests es)"
  by (induction es rule: requests.induct) auto

lemma json_rpc_trace:
  assumes "json_rpc rep st me ob ac ps = (st', es, r)"
  shows "fault_codes es = raised_code r"
    and "filter is_telemetry es = []"
    and "\<exists>rq. requests es = [rq] \<and> req_token rq = session_param (session st) \<and> req_action rq = ac"
    and "\<exists>rq resp. es = [Rpc rq resp] \<and> req_action rq = ac \<and> (\<forall>c m. resp = Fault c m \<longrightarrow> r = Inl (JsonRPCError c m))
           \<and> (\<forall>x. r = Inr x \<longrightarrow> (\<exists>p. resp = Reply (fst x) p))"
  using assms by (auto simp: json_rpc_def Let_def split: response.splits)

lemma json_rpc_state:
  assumes "json_rpc rep st me ob ac ps = (st', es, r)"
  shows "\<exists>k. st' = st\<lparr>request_num := k\<rparr>"
  using assms by (auto simp: json_rpc_def Let_def split: response.splits intro: exI [of _ "request_num st"])

lemma login_phase_kept:
  "session st = Some tok \<Longrightarrow> login_phase cfg ev now st = (st, [], Inr True)"
  by (simp add: login_phase_def)

lemma login_phase_frame:
  assumes "login_phase cfg ev now st = (st1, es1, r1)"
  shows "started st1 = started st \<and> last_status st1 = last_status st \<and> last_update st1 = last_update st \<and>
         last_status_message_update st1 = last_status_message_update st \<and> modem st1 = modem st \<and>
         mav_master st1 = mav_master st"
  using assms
  by (auto simp: login_phase_def json_rpc_def Let_def
      split: if_splits response.splits option.splits payload.splits)

lemma login_phase_trace:
  assumes "login_phase cfg ev now st = (st1, es1, r1)"
  shows "fault_codes es1 = raised_code r1 \<and> filter is_telemetry es1 = [] \<and>
         (\<forall>rq \<in> set (requests es1). req_token rq = placeholder \<and> req_action rq = ''login'')"
  using assms
  by (auto simp: login_phase_def json_rpc_def Let_def session_param_def
      split: if_splits response.splits option.splits payload.splits)

lemma login_phase_rate:
  assumes "login_phase cfg ev now st = (st1, es1, r1)" and "session st = None"
  shows "(if now - last_login st > 5
          then last_login st1 = now \<and> (\<exists>rq. requests es1 = [rq] \<and> req_action rq = ''login'')
          else st1 = st \<and> es1 = [] \<and> r1 = Inr True)"
  using assms
  by (auto simp: login_phase_def json_rpc_def Let_def
      split: if_splits response.splits option.splits payload.splits)

lemma login_phase_raise:
  assumes "login_phase cfg ev now st = (st1, es1, Inl e)"
  shows "session st1 = None"
  using assms
  by (auto simp: login_phase_def json_rpc_def Let_def
      split: if_splits response.splits option.splits payload.splits)

lemma login_phase_stop:
  assumes "login_phase cfg ev now st = (st1, es1, Inr False)"
  shows "session st1 = None"
  using assms
  by (auto simp: login_phase_def json_rpc_def Let_def
      split: if_splits response.splits option.splits payload.splits)

lemma send_links_trace:
  "send_links rssi snr mcc mnc ls = (es, r) \<Longrightarrow>
     requests es = [] \<and> fault_codes es = [] \<and> list_all (reports rssi snr) es \<and>
     (r = None \<or> r = Some ValueError)"
  by (induction ls arbitrary: es r) (auto split: if_splits option.splits prod.splits)

lemma report_mobile_frame:
  assumes "report_mobile pf cfg ev now st info = (st', es, r)"
  shows "started st' = started st \<and> session st' = session st \<and> last_login st' = last_login st \<and>
         last_status_message_update st' = last_status_message_update st \<and> modem st' = modem st \<and>
         request_num st' = request_num st"
  using assms
  by (auto simp: report_mobile_def Let_def split: if_splits option.splits payload.splits prod.splits)

lemma report_mobile_trace:
  assumes "report_mobile pf cfg ev now st info = (st', es, r)"
  shows "requests es = [] \<and> fault_codes es = [] \<and> raised_code r = [] \<and>
         (es \<noteq> [] \<longrightarrow> (\<exists>mobile. last_status st' = Some mobile \<and>
            list_all (reports (rssi_of pf mobile) (snr_of pf mobile)) es))"
  using assms
  by (auto simp: report_mobile_def Let_def dest!: send_links_trace
      split: if_splits option.splits payload.splits prod.splits)

lemma select_modem_frame:
  assumes "select_modem ev st = (st', es, r)"
  shows "started st' = started st \<and> session st' = session st \<and> last_login st' = last_login st \<and>
         last_status_message_update st' = last_status_message_update st \<and>
         last_status st' = last_status st \<and> last_update st' = last_update st \<and>
         mav_master st' = mav_master st"
  using assms
  by (auto simp: select_modem_def json_rpc_def Let_def
      split: if_splits response.splits option.splits payload.splits)

lemma select_modem_trace:
  assumes "select_modem ev st = (st', es, r)"
  shows "fault_codes es = raised_code r \<and> filter is_telemetry es = [] \<and>
         (\<forall>rq \<in> set (requests es). req_token rq = session_param (session st) \<and> poll_action rq)"
  using assms
  by (auto simp: select_modem_def json_rpc_def Let_def poll_action_def
      split: if_splits response.splits option.splits payload.splits)

lemma poll_body_frame:
  assumes "poll_body pf cfg ev now st = (st', es, r)"
  shows "started st' = started st \<and> session st' = session st \<and> last_login st' = last_login st \<and>
         last_status_message_update st' = last_status_message_update st"
proof -
  obtain st1 es1 r1 where sm: "select_modem ev st = (st1, es1, r1)"
    by (cases "select_modem ev st") auto
  note f1 = select_modem_frame [OF sm]
  show ?thesis
    using assms f1 unfolding poll_body_def sm
    by (auto simp: json_rpc_def Let_def dest!: report_mobile_frame
        split: sum.splits option.splits response.splits if_splits prod.splits)
qed

lemma reports_telemetry: "reports rssi snr e \<Longrightarrow> is_telemetry e"
  by (cases e) auto

lemma poll_body_split:
  assumes "poll_body pf cfg ev now st = (st', es, r)"
  obtains
    (resolve_raised) e es1 where "select_modem ev st = (st', es1, Inl e)" "es = es1" "r = Inl e"
  | (no_modem) es1 u where "select_modem ev st = (st', es1, Inr u)" "modem st' = None"
      "es = es1" "r = Inr False"
  | (info_raised) st1 es1 u m es2 e where "select_modem ev st = (st1, es1, Inr u)"
      "json_rpc (reply ev) st1 ''call'' ''vuci.network.mobile'' ''mobile_info'' (ModemParam m)
         = (st', es2, Inl e)" "es = es1 @ es2" "r = Inl e"
  | (info_refused) st1 es1 u m es2 code info where "select_modem ev st = (st1, es1, Inr u)"
      "json_rpc (reply ev) st1 ''call'' ''vuci.network.mobile'' ''mobile_info'' (ModemParam m)
         = (st', es2, Inr (code, info))" "code \<noteq> 0" "es = es1 @ es2" "r = Inr True"
  | (reported) st1 es1 u m st2 es2 info es3 where "select_modem ev st = (st1, es1, Inr u)"
      "json_rpc (reply ev) st1 ''call'' ''vuci.network.mobile'' ''mobile_info'' (ModemParam m)
         = (st2, es2, Inr (0, info))"
      "report_mobile pf cfg ev now st2 info = (st', es3, r)" "es = es1 @ es2 @ es3"
proof -
  obtain st1 es1 r1 where sm: "select_modem ev st = (st1, es1, r1)"
    by (cases "select_modem ev st") auto
  show thesis
  proof (cases r1)
    case (Inl e)
    with assms sm show thesis
      by (intro resolve_raised [of es1 e]) (auto simp: poll_body_def)
  next
    case (Inr u)
    show thesis
    proof (cases "modem st1")
      case None
      with assms sm Inr show thesis
        by (intro no_modem [of es1 u]) (auto simp: poll_body_def)
    next
      case (Some m)
      obtain st2 es2 r2 where j: "json_rpc (reply ev) st1 ''call'' ''vuci.network.mobile''
          ''mobile_info'' (ModemParam m) = (st2, es2, r2)"
        by (cases "json_rpc (reply ev) st1 ''call'' ''vuci.network.mobile''
          ''mobile_info'' (ModemParam m)") auto
      show thesis
      proof (cases r2)
        case (Inl e)
        with assms sm \<open>r1 = Inr u\<close> Some j show thesis
          by (intro info_raised [of st1 es1 u m es2 e]) (auto simp: poll_body_def)
      next
        case (Inr cp)
        obtain code info where cp: "cp = (code, info)" by (cases cp) auto
        show thesis
        proof (cases "code = 0")
          case True
          obtain st3 es3 r3 where rm: "report_mobile pf cfg ev now st2 info = (st3, es3, r3)"
            by (cases "report_mobile pf cfg ev now st2 info") auto
          with assms sm \<open>r1 = Inr u\<close> Some j Inr cp True show thesis
            by (intro reported [of st1 es1 u m st2 es2 info es3]) (auto simp: poll_body_def)
        next
          case False
          with assms sm \<open>r1 = Inr u\<close> Some j Inr cp show thesis
            by (intro info_refused [of st1 es1 u m es2 code info]) (auto simp: poll_body_def)
        qed
      qed
    qed
  qed
qed

lemma poll_body_trace:
  assumes "poll_body pf cfg ev now st = (st', es, r)"
  shows "fault_codes es = raised_code r"
    and "\<forall>rq \<in> set (requests es). req_token rq = session_param (session st) \<and> poll_action rq"
    and "raised_code r \<noteq> [] \<longrightarrow> last_status st' = last_status st \<and> last_update st' = last_update st \<and>
           filter is_telemetry es = []"
    and "\<forall>e \<in> set es. is_telemetry e \<longrightarrow> (\<exists>mobile. last_status st' = Some mobile \<and>
           reports (rssi_of pf mobile) (snr_of pf mobile) e)"
proof -
  show "fault_codes es = raised_code r"
    using assms
  proof (cases rule: poll_body_split)
    case (resolve_raised e es1)
    then show ?thesis using select_modem_trace [OF resolve_raised(1)] by simp
  next
    case (no_modem es1 u)
    then show ?thesis using select_modem_trace [OF no_modem(1)] by simp
  next
    case (info_raised st1 es1 u m es2 e)
    then show ?thesis
      using select_modem_trace [of ev st st1 es1 "Inr u"] json_rpc_trace(1) [OF info_raised(2)]
      by simp
  next
    case (info_refused st1 es1 u m es2 code info)
    then show ?thesis
      using select_modem_trace [of ev st st1 es1 "Inr u"] json_rpc_trace(1) [OF info_refused(2)]
      by simp
  next
    case (reported st1 es1 u m st2 es2 info es3)
    then show ?thesis
      using select_modem_trace [of ev st st1 es1 "Inr u"] json_rpc_trace(1) [OF reported(2)]
        report_mobile_trace [OF reported(3)]
      by simp
  qed
  show "\<forall>rq \<in> set (requests es). req_token rq = session_param (session st) \<and> poll_action rq"
    using assms
  proof (cases rule: poll_body_split)
    case (resolve_raised e es1)
    then show ?thesis using select_modem_trace [OF resolve_raised(1)] by simp
  next
    case (no_modem es1 u)
    then show ?thesis using select_modem_trace [OF no_modem(1)] by simp
  next
    case (info_raised st1 es1 u m es2 e)
    then show ?thesis
      using select_modem_trace [of ev st st1 es1 "Inr u"] select_modem_frame [of ev st st1 es1 "Inr u"]
        json_rpc_trace(3) [OF info_raised(2)]
      by (auto simp: poll_action_def)
  next
    case (info_refused st1 es1 u m es2 code info)
    then show ?thesis
      using select_modem_trace [of ev st st1 es1 "Inr u"] select_modem_frame [of ev st st1 es1 "Inr u"]
        json_rpc_trace(3) [OF info_refused(2)]
      by (auto simp: poll_action_def)
  next
    case (reported st1 es1 u m st2 es2 info es3)
    then show ?thesis
      using select_modem_trace [of ev st st1 es1 "Inr u"] select_modem_frame [of ev st st1 es1 "Inr u"]
        json_rpc_trace(3) [OF reported(2)] report_mobile_trace [OF reported(3)]
      by (auto simp: poll_action_def)
  qed
  show "raised_code r \<noteq> [] \<longrightarrow> last_status st' = last_status st \<and> last_update st' = last_update st \<and>
           filter is_telemetry es = []"
    using assms
  proof (cases rule: poll_body_split)
    case (resolve_raised e es1)
    then show ?thesis
      using select_modem_trace [of ev st st' es1 "Inl e"] select_modem_frame [of ev st st' es1 "Inl e"]
      by simp
  next
    case (no_modem es1 u)
    then show ?thesis by simp
  next
    case (info_raised st1 es1 u m es2 e)
    then show ?thesis
      using select_modem_trace [of ev st st1 es1 "Inr u"] select_modem_frame [of ev st st1 es1 "Inr u"]
        json_rpc_trace(2) [OF info_raised(2)] json_rpc_state [OF info_raised(2)]
      by auto
  next
    case (info_refused st1 es1 u m es2 code info)
    then show ?thesis by simp
  next
    case (reported st1 es1 u m st2 es2 info es3)
    then show ?thesis
      using report_mobile_trace [OF reported(3)] by simp
  qed
  show "\<forall>e \<in> set es. is_telemetry e \<longrightarrow> (\<exists>mobile. last_status st' = Some mobile \<and>
           reports (rssi_of pf mobile) (snr_of pf mobile) e)"
    using assms
  proof (cases rule: poll_body_split)
    case (resolve_raised e es1)
    then show ?thesis
      using select_modem_trace [of ev st st' es1 "Inl e"] by (auto simp: filter_empty_conv)
  next
    case (no_modem es1 u)
    then show ?thesis
      using select_modem_trace [of ev st st' es1 "Inr u"] by (auto simp: filter_empty_conv)
  next
    case (info_raised st1 es1 u m es2 e)
    then show ?thesis
      using select_modem_trace [of ev st st1 es1 "Inr u"] json_rpc_trace(2) [OF info_raised(2)]
      by (auto simp: filter_empty_conv)
  next
    case (info_refused st1 es1 u m es2 code info)
    then show ?thesis
      using select_modem_trace [of ev st st1 es1 "Inr u"] json_rpc_trace(2) [OF info_refused(2)]
      by (auto simp: filter_empty_conv)
  next
    case (reported st1 es1 u m st2 es2 info es3)
    then show ?thesis
      using select_modem_trace [of ev st st1 es1 "Inr u"] json_rpc_trace(2) [OF reported(2)]
        report_mobile_trace [OF reported(3)]
      by (auto simp: filter_empty_conv list_all_iff)
  qed
qed

lemma poll_phase_split:
  assumes "poll_phase pf cfg ev now st = (st', es, r)"
  obtains
    (idle) "st' = st" "es = []" "r = Inr True \<or> r = Inl ZeroDivisionError"
  | (went) go where "poll_body pf cfg ev now st = (st', es, Inr go)" "r = Inr go"
  | (expired) st1 es1 m where "poll_body pf cfg ev now st = (st1, es1, Inl (JsonRPCError invalid_session m))"
      "st' = st1\<lparr>session := None\<rparr>" "es = es1 @ [Print InvalidSession]" "r = Inr True"
  | (swallowed) c m where "poll_body pf cfg ev now st = (st', es, Inl (JsonRPCError c m))"
      "c \<noteq> invalid_session" "r = Inr True"
  | (raised) e where "poll_body pf cfg ev now st = (st', es, Inl e)" "error_code e = []" "r = Inl e"
proof -
  obtain st1 es1 r1 where pb: "poll_body pf cfg ev now st = (st1, es1, r1)"
    by (cases "poll_body pf cfg ev now st") auto
  show thesis
  proof (cases "freq cfg \<noteq> 0 \<and> now - last_update st > 1 / freq cfg")
    case False
    with assms show thesis
      by (intro idle) (auto simp: poll_phase_def split: if_splits)
  next
    case True
    show thesis
    proof (cases r1)
      case (Inr go)
      with assms pb True show thesis
        by (intro went [of go]) (auto simp: poll_phase_def)
    next
      case (Inl e)
      show thesis
      proof (cases "error_code e = []")
        case True
        with assms pb \<open>freq cfg \<noteq> 0 \<and> now - last_update st > 1 / freq cfg\<close> Inl show thesis
          by (intro raised [of e]) (cases e; auto simp: poll_phase_def on_error_def)+
      next
        case False
        then obtain c m where e: "e = JsonRPCError c m" by (cases e) auto
        show thesis
        proof (cases "c = invalid_session")
          case True
          with assms pb \<open>freq cfg \<noteq> 0 \<and> now - last_update st > 1 / freq cfg\<close> Inl e show thesis
            by (intro expired [of st1 es1 m]) (auto simp: poll_phase_def on_error_def)
        next
          case False
          with assms pb \<open>freq cfg \<noteq> 0 \<and> now - last_update st > 1 / freq cfg\<close> Inl e show thesis
            by (intro swallowed [of c m]) (auto simp: poll_phase_def on_error_def)
        qed
      qed
    qed
  qed
qed

lemma poll_phase_trace:
  assumes "poll_phase pf cfg ev now st = (st', es, r)"
  shows "started st' = started st \<and> last_login st' = last_login st \<and>
         last_status_message_update st' = last_status_message_update st"
    and "session st' = (if invalid_session \<in> set (fault_codes es) then None else session st)"
    and "\<forall>rq \<in> set (requests es). req_token rq = session_param (session st) \<and> poll_action rq"
    and "fault_codes es \<noteq> [] \<longrightarrow> last_status st' = last_status st \<and> last_update st' = last_update st \<and>
           filter is_telemetry es = []"
    and "\<forall>e \<in> set es. is_telemetry e \<longrightarrow> (\<exists>mobile. last_status st' = Some mobile \<and>
           reports (rssi_of pf mobile) (snr_of pf mobile) e)"
    and "raised_code r = []"
proof -
  show "started st' = started st \<and> last_login st' = last_login st \<and>
         last_status_message_update st' = last_status_message_update st"
    using assms by (cases rule: poll_phase_split) (auto dest!: poll_body_frame)
  show "session st' = (if invalid_session \<in> set (fault_codes es) then None else session st)"
    using assms
  proof (cases rule: poll_phase_split)
    case idle
    then show ?thesis by simp
  next
    case (went go)
    then show ?thesis
      using poll_body_trace(1) [OF went(1)] poll_body_frame [OF went(1)] by simp
  next
    case (expired st1 es1 m)
    then show ?thesis
      using poll_body_trace(1) [OF expired(1)] by simp
  next
    case (swallowed c m)
    then show ?thesis
      using poll_body_trace(1) [OF swallowed(1)] poll_body_frame [OF swallowed(1)] by simp
  next
    case (raised e)
    then show ?thesis
      using poll_body_trace(1) [OF raised(1)] poll_body_frame [OF raised(1)] by simp
  qed
  show "\<forall>rq \<in> set (requests es). req_token rq = session_param (session st) \<and> poll_action rq"
    using assms by (cases rule: poll_phase_split) (auto dest!: poll_body_trace(2))
  show "fault_codes es \<noteq> [] \<longrightarrow> last_status st' = last_status st \<and> last_update st' = last_update st \<and>
           filter is_telemetry es = []"
    using assms
  proof (cases rule: poll_phase_split)
    case idle
    then show ?thesis by simp
  next
    case (went go)
    then show ?thesis using poll_body_trace(1) [OF went(1)] by simp
  next
    case (expired st1 es1 m)
    then show ?thesis using poll_body_trace(3) [OF expired(1)] by simp
  next
    case (swallowed c m)
    then show ?thesis using poll_body_trace(3) [OF swallowed(1)] by simp
  next
    case (raised e)
    then show ?thesis using poll_body_trace(1) [OF raised(1)] by simp
  qed
  show "\<forall>e \<in> set es. is_telemetry e \<longrightarrow> (\<exists>mobile. last_status st' = Some mobile \<and>
           reports (rssi_of pf mobile) (snr_of pf mobile) e)"
    using assms
  proof (cases rule: poll_phase_split)
    case idle
    then show ?thesis by simp
  next
    case (went go)
    then show ?thesis using poll_body_trace(4) [OF went(1)] by simp
  next
    case (expired st1 es1 m)
    then show ?thesis using poll_body_trace(3) [OF expired(1)] by (auto simp: filter_empty_conv)
  next
    case (swallowed c m)
    then show ?thesis using poll_body_trace(4) [OF swallowed(1)] by simp
  next
    case (raised e)
    then show ?thesis using poll_body_trace(4) [OF raised(1)] by simp
  qed
  show "raised_code r = []"
    using assms by (cases rule: poll_phase_split) auto
qed

lemma publish_calls_append [simp]: "publish_calls (xs @ ys) = publish_calls xs @ publish_calls ys"
  by (induction xs rule: publish_calls.induct) simp_all

lemma publish_calls_none:
  "\<forall>rq \<in> set (requests es). \<not> publish_action rq \<Longrightarrow> publish_calls es = []"
  by (induction es rule: publish_calls.induct) auto

lemma publish_body_frame:
  assumes "publish_body ev now st pos = (st', es, r)"
  shows "started st' = started st \<and> session st' = session st \<and> last_login st' = last_login st \<and>
         last_status st' = last_status st \<and> last_update st' = last_update st"
  using assms
  by (auto simp: publish_body_def json_rpc_def Let_def split: response.splits)

lemma publish_body_trace:
  assumes "publish_body ev now st pos = (st', es, r)"
  shows "fault_codes es = raised_code r \<and> filter is_telemetry es = [] \<and>
         (\<forall>rq \<in> set (requests es). req_token rq = session_param (session st) \<and> publish_action rq)"
  using assms
  by (auto simp: publish_body_def json_rpc_def Let_def publish_action_def split: response.splits if_splits)

lemma publish_body_stamp:
  assumes "publish_body ev now st pos = (st', es, r)"
  shows "case r of
           Inl e \<Rightarrow> last_status_message_update st' = last_status_message_update st
         | Inr u \<Rightarrow> last_status_message_update st' = now \<and>
             map fst (publish_calls es) = [''set'', ''set'', ''apply''] \<and>
             list_all (\<lambda>c. is_reply (snd c)) (publish_calls es)"
  using assms
  by (auto simp: publish_body_def json_rpc_def Let_def publish_action_def split: response.splits if_splits)

lemma publish_phase_idle:
  "session st = None \<Longrightarrow> publish_phase ev now st = (st, [], None)"
  by (simp add: publish_phase_def)

lemma publish_phase_split:
  assumes "publish_phase ev now st = (st', es, r)"
  obtains
    (idle) "st' = st" "es = []" "r = None"
  | (unknown) "position ev = None" "st' = st" "es = [Print PositionUnknown]" "r = None"
  | (completed) pos u where "position ev = Some pos" "publish_body ev now st pos = (st', es, Inr u)" "r = None"
  | (failed) pos st1 es1 e where "position ev = Some pos" "publish_body ev now st pos = (st1, es1, Inl e)"
      "on_error st1 es1 e = (st', es, r)"
proof -
  show thesis
  proof (cases "session st \<noteq> None \<and> now - last_status_message_update st > 30")
    case False
    with assms show thesis by (intro idle) (auto simp: publish_phase_def split: if_splits)
  next
    case True
    show thesis
    proof (cases "position ev")
      case None
      with assms True show thesis by (intro unknown) (auto simp: publish_phase_def)
    next
      case (Some pos)
      obtain st1 es1 r1 where pb: "publish_body ev now st pos = (st1, es1, r1)"
        by (cases "publish_body ev now st pos") auto
      show thesis
      proof (cases r1)
        case (Inl e)
        with assms True Some pb show thesis
          by (intro failed [of pos st1 es1 e]) (auto simp: publish_phase_def)
      next
        case (Inr u)
        with assms True Some pb show thesis
          by (intro completed [of pos u]) (auto simp: publish_phase_def)
      qed
    qed
  qed
qed

lemma on_error_trace:
  assumes "on_error st1 es1 e = (st', es, r)"
  shows "started st' = started st1 \<and> last_login st' = last_login st1 \<and>
         last_status st' = last_status st1 \<and> last_update st' = last_update st1 \<and>
         last_status_message_update st' = last_status_message_update st1 \<and>
         requests es = requests es1 \<and> fault_codes es = fault_codes es1 \<and>
         filter is_telemetry es = filter is_telemetry es1 \<and>
         publish_calls es = publish_calls es1 \<and>
         session st' = (if invalid_session \<in> set (error_code e) then None else session st1)"
  using assms by (cases e) (auto simp: on_error_def split: if_splits)

lemma publish_phase_trace:
  assumes "publish_phase ev now st = (st', es, r)"
  shows "started st' = started st \<and> last_login st' = last_login st \<and>
         last_status st' = last_status st \<and> last_update st' = last_update st"
    and "session st' = (if invalid_session \<in> set (fault_codes es) then None else session st)"
    and "filter is_telemetry es = [] \<and>
         (\<forall>rq \<in> set (requests es). req_token rq = session_param (session st) \<and> publish_action rq)"
    and "position ev = None \<longrightarrow> last_status_message_update st' = last_status_message_update st"
    and "last_status_message_update st' \<noteq> last_status_message_update st \<longrightarrow>
           last_status_message_update st' = now \<and>
           map fst (publish_calls es) = [''set'', ''set'', ''apply''] \<and>
           list_all (\<lambda>c. is_reply (snd c)) (publish_calls es)"
proof -
  show "started st' = started st \<and> last_login st' = last_login st \<and>
         last_status st' = last_status st \<and> last_update st' = last_update st"
    using assms
  proof (cases rule: publish_phase_split)
    case (completed pos u)
    then show ?thesis using publish_body_frame [OF completed(2)] by simp
  next
    case (failed pos st1 es1 e)
    then show ?thesis
      using publish_body_frame [OF failed(2)] on_error_trace [OF failed(3)] by simp
  qed simp_all
  show "session st' = (if invalid_session \<in> set (fault_codes es) then None else session st)"
    using assms
  proof (cases rule: publish_phase_split)
    case (completed pos u)
    then show ?thesis
      using publish_body_frame [OF completed(2)] publish_body_trace [OF completed(2)] by simp
  next
    case (failed pos st1 es1 e)
    then show ?thesis
      using publish_body_frame [OF failed(2)] publish_body_trace [OF failed(2)]
        on_error_trace [OF failed(3)] by simp
  qed simp_all
  show "filter is_telemetry es = [] \<and>
         (\<forall>rq \<in> set (requests es). req_token rq = session_param (session st) \<and> publish_action rq)"
    using assms
  proof (cases rule: publish_phase_split)
    case (completed pos u)
    then show ?thesis using publish_body_trace [OF completed(2)] by simp
  next
    case (failed pos st1 es1 e)
    then show ?thesis
      using publish_body_trace [OF failed(2)] on_error_trace [OF failed(3)] by simp
  qed simp_all
  show "position ev = None \<longrightarrow> last_status_message_update st' = last_status_message_update st"
    using assms by (cases rule: publish_phase_split) simp_all
  show "last_status_message_update st' \<noteq> last_status_message_update st \<longrightarrow>
           last_status_message_update st' = now \<and>
           map fst (publish_calls es) = [''set'', ''set'', ''apply''] \<and>
           list_all (\<lambda>c. is_reply (snd c)) (publish_calls es)"
    using assms
  proof (cases rule: publish_phase_split)
    case (completed pos u)
    then show ?thesis using publish_body_stamp [OF completed(2)] by simp
  next
    case (failed pos st1 es1 e)
    then show ?thesis
      using publish_body_stamp [OF failed(2)] on_error_trace [OF failed(3)] by simp
  qed simp_all
qed

subsection \<open>A whole tick\<close>

lemma idle_task_split:
  assumes "idle_task pf cfg ev now st = (st', es, r)"
  obtains
    (stopped) "\<not> started st" "st' = st" "es = []" "r = None"
  | (login_exit) r1 where "started st" "login_phase cfg ev now st = (st', es, r1)" "r1 \<noteq> Inr True"
  | (poll_exit) st1 es1 es2 r2 where "started st" "login_phase cfg ev now st = (st1, es1, Inr True)"
      "poll_phase pf cfg ev now st1 = (st', es2, r2)" "r2 \<noteq> Inr True" "es = es1 @ es2"
  | (full) st1 es1 st2 es2 es3 where "started st" "login_phase cfg ev now st = (st1, es1, Inr True)"
      "poll_phase pf cfg ev now st1 = (st2, es2, Inr True)"
      "publish_phase ev now st2 = (st', es3, r)" "es = es1 @ es2 @ es3"
proof (cases "started st")
  case False
  with assms show thesis by (intro stopped) (auto simp: idle_task_def)
next
  case True
  obtain st1 es1 r1 where l: "login_phase cfg ev now st = (st1, es1, r1)"
    by (cases "login_phase cfg ev now st") auto
  show thesis
  proof (cases "r1 = Inr True")
    case False
    with assms True l show thesis
      by (intro login_exit [of r1]) (auto simp: idle_task_def split: sum.splits bool.splits)
  next
    case r1: True
    obtain st2 es2 r2 where p: "poll_phase pf cfg ev now st1 = (st2, es2, r2)"
      by (cases "poll_phase pf cfg ev now st1") auto
    show thesis
    proof (cases "r2 = Inr True")
      case False
      with assms True l r1 p show thesis
        by (intro poll_exit [of st1 es1 es2 r2]) (auto simp: idle_task_def split: sum.splits bool.splits)
    next
      case r2: True
      obtain st3 es3 r3 where u: "publish_phase ev now st2 = (st3, es3, r3)"
        by (cases "publish_phase ev now st2") auto
      with assms True l r1 p r2 show thesis
        by (intro full [of st1 es1 st2 es2 es3]) (auto simp: idle_task_def)
    qed
  qed
qed

lemma login_phase_session:
  assumes "login_phase cfg ev now st = (st1, es1, r1)"
  shows "session st1 = session st \<or> (session st = None \<and> Print SessionStarted \<in> set es1)"
  using assms
  by (auto simp: login_phase_def json_rpc_def Let_def
      split: if_splits response.splits option.splits payload.splits)

lemma login_phase_exit:
  assumes "login_phase cfg ev now st = (st1, es1, r1)" and "r1 \<noteq> Inr True"
  shows "session st = None \<and> session st1 = None"
  using assms
  by (auto simp: login_phase_def json_rpc_def Let_def
      split: if_splits response.splits option.splits payload.splits)

lemma tick_session:
  assumes "idle_task pf cfg ev now st = (st', es, r)"
  shows "(invalid_session \<in> set (fault_codes es) \<longrightarrow> session st' = None) \<and>
         (invalid_session \<notin> set (fault_codes es) \<longrightarrow>
            session st' = session st \<or> (session st = None \<and> Print SessionStarted \<in> set es))"
  using assms
proof (cases rule: idle_task_split)
  case stopped
  then show ?thesis by simp
next
  case (login_exit r1)
  then show ?thesis using login_phase_exit [OF login_exit(2,3)] by simp
next
  case (poll_exit st1 es1 es2 r2)
  then show ?thesis
    using login_phase_session [OF poll_exit(2)] login_phase_trace [OF poll_exit(2)]
      poll_phase_trace(2) [OF poll_exit(3)]
    by auto
next
  case (full st1 es1 st2 es2 es3)
  then show ?thesis
    using login_phase_session [OF full(2)] login_phase_trace [OF full(2)]
      poll_phase_trace(2) [OF full(3)] publish_phase_trace(2) [OF full(4)]
    by auto
qed

lemma tick_first_token:
  assumes "idle_task pf cfg ev now st = (st', es, r)" and "session st = None"
    and "requests es = rq # rqs"
  shows "req_token rq = placeholder"
  using assms(1)
proof (cases rule: idle_task_split)
  case stopped
  with assms show ?thesis by simp
next
  case (login_exit r1)
  then show ?thesis using login_phase_trace [OF login_exit(2)] assms(3) by auto
next
  case (poll_exit st1 es1 es2 r2)
  show ?thesis
  proof (cases "requests es1")
    case (Cons a as)
    with poll_exit assms(3) login_phase_trace [OF poll_exit(2)] show ?thesis by auto
  next
    case Nil
    with login_phase_rate [OF poll_exit(2) assms(2)] have "st1 = st"
      by (auto split: if_splits)
    with Nil poll_exit assms(2,3) poll_phase_trace(3) [OF poll_exit(3)] show ?thesis
      by (auto simp: session_param_def)
  qed
next
  case (full st1 es1 st2 es2 es3)
  show ?thesis
  proof (cases "requests es1")
    case (Cons a as)
    with full assms(3) login_phase_trace [OF full(2)] show ?thesis by auto
  next
    case Nil
    with login_phase_rate [OF full(2) assms(2)] have s1: "st1 = st"
      by (auto split: if_splits)
    with assms(2) poll_phase_trace(2) [OF full(3)] have "session st2 = None"
      by (simp split: if_splits)
    with full(4) have "es3 = []" by (simp add: publish_phase_idle)
    with Nil s1 full assms(2,3) poll_phase_trace(3) [OF full(3)] show ?thesis
      by (auto simp: session_param_def)
  qed
qed

text \<open>
  C2.  Over a tick: when a call is answered by a fault whose code is the string \<^verbatim>\<open>'-32002'\<close>,
  the session is absent afterwards; when no fault of the tick has that code (other codes, a
  numeric -32002 included), the session is what it was, unless the tick itself logged in
  from no session.  And from a state with no session, the first call of any later tick sends
  the all-zero placeholder as its token.
\<close>

theorem C2_session_cleared_on_invalid_code:
  "idle_task pf cfg ev now st = (st1, es1, r1) \<longrightarrow>
     (invalid_session \<in> set (fault_codes es1) \<longrightarrow> session st1 = None) \<and>
     (invalid_session \<notin> set (fault_codes es1) \<longrightarrow>
        session st1 = session st \<or> (session st = None \<and> Print SessionStarted \<in> set es1)) \<and>
     (session st1 = None \<and> idle_task pf2 cfg2 ev2 now2 st1 = (st2, es2, r2) \<and>
        requests es2 = rq # rqs \<longrightarrow> req_token rq = placeholder)"
  using tick_session [of pf cfg ev now st st1 es1 r1]
    tick_first_token [of pf2 cfg2 ev2 now2 st1 st2 es2 r2 rq rqs]
  by blast

lemma action_clash:
  "poll_action rq \<Longrightarrow> req_action rq = ''login'' \<Longrightarrow> False"
  "poll_action rq \<Longrightarrow> publish_action rq \<Longrightarrow> False"
  "publish_action rq \<Longrightarrow> req_action rq = ''login'' \<Longrightarrow> False"
  by (auto simp: poll_action_def publish_action_def)

lemma poll_fault_found:
  assumes "Rpc rq (Fault c m) \<in> set es" and "poll_action rq"
    and "\<forall>q \<in> set (requests es). \<not> poll_action q"
  shows False
  using assms request_in_trace by blast

text \<open>
  C3.  When a call of the poll (\<^verbatim>\<open>uci get\<close> or \<^verbatim>\<open>mobile_info\<close>) is answered by a fault with the
  invalid-session code, the tick leaves \<^verbatim>\<open>last_status\<close> and \<^verbatim>\<open>last_update\<close> as they were, sends no
  telemetry message to any link, and ends with no session.
\<close>

theorem C3_expired_poll_publishes_nothing:
  "idle_task pf cfg ev now st = (st', es, r) \<and> Rpc rq (Fault invalid_session m) \<in> set es \<and>
   poll_action rq \<longrightarrow>
     last_status st' = last_status st \<and> last_update st' = last_update st \<and>
     filter is_telemetry es = [] \<and> session st' = None"
proof (intro impI, elim conjE)
  assume t: "idle_task pf cfg ev now st = (st', es, r)"
    and f: "Rpc rq (Fault invalid_session m) \<in> set es" and a: "poll_action rq"
  from t show "last_status st' = last_status st \<and> last_update st' = last_update st \<and>
     filter is_telemetry es = [] \<and> session st' = None"
  proof (cases rule: idle_task_split)
    case stopped
    with f show ?thesis by simp
  next
    case (login_exit r1)
    from login_phase_trace [OF login_exit(2)] have "\<forall>q \<in> set (requests es). \<not> poll_action q"
      using action_clash(1) by blast
    with f a show ?thesis using poll_fault_found by blast
  next
    case (poll_exit st1 es1 es2 r2)
    from login_phase_trace [OF poll_exit(2)] have n1: "\<forall>q \<in> set (requests es1). \<not> poll_action q"
      using action_clash(1) by blast
    with f a poll_exit(5) have "Rpc rq (Fault invalid_session m) \<in> set es2"
      using poll_fault_found by fastforce
    then have i: "invalid_session \<in> set (fault_codes es2)" by (rule fault_in_trace)
    then have "fault_codes es2 \<noteq> []" by auto
    with i poll_exit(5) login_phase_frame [OF poll_exit(2)] login_phase_trace [OF poll_exit(2)]
      poll_phase_trace(2) [OF poll_exit(3)] poll_phase_trace(4) [OF poll_exit(3)]
    show ?thesis by simp
  next
    case (full st1 es1 st2 es2 es3)
    from login_phase_trace [OF full(2)] have n1: "\<forall>q \<in> set (requests es1). \<not> poll_action q"
      using action_clash(1) by blast
    from publish_phase_trace(3) [OF full(4)] have n3: "\<forall>q \<in> set (requests es3). \<not> poll_action q"
      using action_clash(2) by blast
    from f a full(5) n1 n3 have "Rpc rq (Fault invalid_session m) \<in> set es2"
      using poll_fault_found by fastforce
    then have i: "invalid_session \<in> set (fault_codes es2)" by (rule fault_in_trace)
    then have ne: "fault_codes es2 \<noteq> []" by auto
    from i poll_phase_trace(2) [OF full(3)] have s2: "session st2 = None" by simp
    with full(4) have e3: "st' = st2" "es3 = []" by (simp_all add: publish_phase_idle)
    with ne s2 full(5) login_phase_frame [OF full(2)] login_phase_trace [OF full(2)]
      poll_phase_trace(4) [OF full(3)]
    show ?thesis by simp
  qed
qed

lemma login_issued_append [simp]: "login_issued (xs @ ys) \<longleftrightarrow> login_issued xs \<or> login_issued ys"
  by (simp add: login_issued_def)

lemma no_login_issued:
  "\<forall>q \<in> set (requests es). req_action q \<noteq> ''login'' \<Longrightarrow> \<not> login_issued es"
  by (simp add: login_issued_def list_ex_iff)

lemma poll_phase_no_login:
  assumes "poll_phase pf cfg ev now st = (st', es, r)"
  shows "\<not> login_issued es"
  using poll_phase_trace(3) [OF assms] action_clash(1) by (intro no_login_issued) blast

lemma publish_phase_no_login:
  assumes "publish_phase ev now st = (st', es, r)"
  shows "\<not> login_issued es"
  using publish_phase_trace(3) [OF assms] action_clash(3) by (intro no_login_issued) blast

lemma login_phase_issued:
  assumes "login_phase cfg ev now st = (st1, es1, r1)" and "session st = None"
  shows "(login_issued es1 \<longleftrightarrow> now - last_login st > 5) \<and>
         last_login st1 = (if now - last_login st > 5 then now else last_login st)"
  using login_phase_rate [OF assms] by (auto simp: login_issued_def split: if_splits)

text \<open>
  C4, as amended.  For a started module with no session, a tick issues a login call exactly
  when strictly more than 5 seconds have passed since the last attempt (at exactly 5 seconds
  it issues none), and a tick that issues one sets the last-attempt timestamp to the current
  time whatever the gateway answers; a tick that issues none leaves the timestamp.
\<close>

theorem C4_login_rate_limit:
  "started st \<and> session st = None \<and> idle_task pf cfg ev now st = (st', es, r) \<longrightarrow>
     (login_issued es \<longleftrightarrow> now - last_login st > 5) \<and>
     last_login st' = (if now - last_login st > 5 then now else last_login st)"
proof (intro impI, elim conjE)
  assume s: "started st" and n: "session st = None"
    and t: "idle_task pf cfg ev now st = (st', es, r)"
  from t show "(login_issued es \<longleftrightarrow> now - last_login st > 5) \<and>
     last_login st' = (if now - last_login st > 5 then now else last_login st)"
  proof (cases rule: idle_task_split)
    case stopped
    with s show ?thesis by simp
  next
    case (login_exit r1)
    then show ?thesis using login_phase_issued [OF login_exit(2) n] by simp
  next
    case (poll_exit st1 es1 es2 r2)
    then show ?thesis
      using login_phase_issued [OF poll_exit(2) n] poll_phase_no_login [OF poll_exit(3)]
        poll_phase_trace(1) [OF poll_exit(3)]
      by simp
  next
    case (full st1 es1 st2 es2 es3)
    then show ?thesis
      using login_phase_issued [OF full(2) n] poll_phase_no_login [OF full(3)]
        poll_phase_trace(1) [OF full(3)] publish_phase_no_login [OF full(4)]
        publish_phase_trace(1) [OF full(4)]
      by simp
  qed
qed

lemma login_phase_no_publish:
  assumes "login_phase cfg ev now st = (st1, es1, r1)"
  shows "publish_calls es1 = []"
  using login_phase_trace [OF assms] action_clash(3) by (intro publish_calls_none) blast

lemma poll_phase_no_publish:
  assumes "poll_phase pf cfg ev now st = (st', es, r)"
  shows "publish_calls es = []"
  using poll_phase_trace(3) [OF assms] action_clash(2) by (intro publish_calls_none) blast

lemma tick_stamp:
  assumes "idle_task pf cfg ev now st = (st', es, r)"
  shows "(position ev = None \<longrightarrow>
            last_status_message_update st' = last_status_message_update st) \<and>
         (last_status_message_update st' \<noteq> last_status_message_update st \<longrightarrow>
            last_status_message_update st' = now \<and>
            map fst (publish_calls es) = [''set'', ''set'', ''apply''] \<and>
            list_all (\<lambda>c. is_reply (snd c)) (publish_calls es))"
  using assms
proof (cases rule: idle_task_split)
  case stopped
  then show ?thesis by simp
next
  case (login_exit r1)
  then show ?thesis using login_phase_frame [OF login_exit(2)] by simp
next
  case (poll_exit st1 es1 es2 r2)
  then show ?thesis
    using login_phase_frame [OF poll_exit(2)] poll_phase_trace(1) [OF poll_exit(3)] by simp
next
  case (full st1 es1 st2 es2 es3)
  then show ?thesis
    using login_phase_frame [OF full(2)] poll_phase_trace(1) [OF full(3)]
      login_phase_no_publish [OF full(2)] poll_phase_no_publish [OF full(3)]
      publish_phase_trace(4) [OF full(4)] publish_phase_trace(5) [OF full(4)]
    by simp
qed

lemma publish_phase_completes:
  assumes "session st \<noteq> None" and "now - last_status_message_update st > 30"
    and "position ev = Some pos"
    and "reply ev (request_num st) = Reply sr p1"
    and "reply ev (request_num st + 1) = Reply sr2 p2"
    and "reply ev (request_num st + 2) = Reply ar p3"
  shows "\<exists>st3 es3. publish_phase ev now st = (st3, es3, None) \<and>
           last_status_message_update st3 = now \<and>
           (Print (StatusSet sr sr2 ar) \<in> set es3 \<longleftrightarrow> sr \<noteq> 0 \<or> sr2 \<noteq> 0 \<or> ar \<noteq> 0)"
  using assms
  by (auto simp: publish_phase_def publish_body_def json_rpc_def Let_def add.commute)

text \<open>
  C8.  Over a tick: with no vehicle position the publish timestamp keeps its value; when the
  timestamp changes it is the current time and the template calls of the tick are the two
  \<^verbatim>\<open>uci set\<close> calls and the \<^verbatim>\<open>uci apply\<close> call, each answered by a result.  And when the publish
  is due with a session and a position, three results with any codes complete it: the
  timestamp is set, and the codes are printed exactly when one of them is not 0.
\<close>

theorem C8_publish_timestamp:
  "(idle_task pf cfg ev now st = (st', es, r) \<longrightarrow>
      (position ev = None \<longrightarrow>
         last_status_message_update st' = last_status_message_update st) \<and>
      (last_status_message_update st' \<noteq> last_status_message_update st \<longrightarrow>
         last_status_message_update st' = now \<and>
         map fst (publish_calls es) = [''set'', ''set'', ''apply''] \<and>
         list_all (\<lambda>c. is_reply (snd c)) (publish_calls es))) \<and>
   (session st \<noteq> None \<and> now - last_status_message_update st > 30 \<and> position ev = Some pos \<and>
    reply ev (request_num st) = Reply sr p1 \<and> reply ev (request_num st + 1) = Reply sr2 p2 \<and>
    reply ev (request_num st + 2) = Reply ar p3 \<longrightarrow>
      (\<exists>st3 es3. publish_phase ev now st = (st3, es3, None) \<and>
         last_status_message_update st3 = now \<and>
         (Print (StatusSet sr sr2 ar) \<in> set es3 \<longleftrightarrow> sr \<noteq> 0 \<or> sr2 \<noteq> 0 \<or> ar \<noteq> 0)))"
  using tick_stamp [of pf cfg ev now st st' es r]
    publish_phase_completes [of st now ev pos sr p1 sr2 p2 ar p3]
  by blast

subsection \<open>Concrete ticks\<close>

lemmas tick_eval = idle_task_def login_phase_def poll_phase_def poll_body_def select_modem_def
  publish_phase_def publish_body_def on_error_def json_rpc_def session_param_def Let_def
  invalid_session_def settings0_def state0_def state_live_def env_refusing_def env_expired_def
  env_denied_def env_publishing_def

lemma tick_expired:
  "idle_task dec_float settings0 env_expired 10 state_live
     = (state_live\<lparr>session := None, request_num := 8\<rparr>,
        [Rpc \<lparr>req_id = 7, req_token = ''5f3c9a'', req_method = ''call'',
               req_obj = ''vuci.network.mobile'', req_action = ''mobile_info'',
               req_params = ModemParam ''3-1''\<rparr>
           (Fault (CodeStr ''-32002'') ''Access denied''),
         Print InvalidSession],
        None)"
  by (simp add: tick_eval)

lemma tick_denied:
  "idle_task dec_float settings0 env_denied 10 state_live
     = (state_live\<lparr>request_num := 8\<rparr>,
        [Rpc \<lparr>req_id = 7, req_token = ''5f3c9a'', req_method = ''call'',
               req_obj = ''vuci.network.mobile'', req_action = ''mobile_info'',
               req_params = ModemParam ''3-1''\<rparr>
           (Fault (CodeInt (- 32002)) ''Access denied'')],
        None)"
  by (simp add: tick_eval)

lemma tick_relogin:
  "idle_task dec_float settings0 env_refusing 11 (state_live\<lparr>session := None, request_num := 8\<rparr>)
     = (state_live\<lparr>session := None, request_num := 9, last_login := 11\<rparr>,
        [Rpc \<lparr>req_id = 8, req_token = placeholder, req_method = ''call'',
               req_obj = ''session'', req_action = ''login'',
               req_params = LoginParams (Some ''admin'') (Some ''secret'')\<rparr>
           (Reply 1 None),
         Print LoginFailed],
        None)"
  by (simp add: tick_eval)

theorem C2_session_cleared_on_invalid_code_witness:
  "session state_live = Some ''5f3c9a'' \<and>
   fault_codes (fst (snd (idle_task dec_float settings0 env_expired 10 state_live)))
     = [CodeStr ''-32002''] \<and>
   session (fst (idle_task dec_float settings0 env_expired 10 state_live)) = None \<and>
   map req_token (requests (fst (snd (idle_task dec_float settings0 env_refusing 11
       (fst (idle_task dec_float settings0 env_expired 10 state_live))))))
     = [''00000000000000000000000000000000''] \<and>
   fault_codes (fst (snd (idle_task dec_float settings0 env_denied 10 state_live)))
     = [CodeInt (- 32002)] \<and>
   session (fst (idle_task dec_float settings0 env_denied 10 state_live)) = Some ''5f3c9a''"
  using C2_session_cleared_on_invalid_code [where pf = dec_float and cfg = settings0
      and ev = env_expired and now = 10 and st = state_live
      and ?st1.0 = "state_live\<lparr>session := None, request_num := 8\<rparr>"
      and ?es1.0 = "fst (snd (idle_task dec_float settings0 env_expired 10 state_live))"
      and ?r1.0 = None and ?pf2.0 = dec_float and ?cfg2.0 = settings0 and ?ev2.0 = env_refusing
      and ?now2.0 = 11
      and ?st2.0 = "state_live\<lparr>session := None, request_num := 9, last_login := 11\<rparr>"
      and ?es2.0 = "fst (snd (idle_task dec_float settings0 env_refusing 11
                      (state_live\<lparr>session := None, request_num := 8\<rparr>)))"
      and ?r2.0 = None
      and rq = "\<lparr>req_id = 8, req_token = placeholder, req_method = ''call'',
               req_obj = ''session'', req_action = ''login'',
               req_params = LoginParams (Some ''admin'') (Some ''secret'')\<rparr>"
      and rqs = "[]"]
    C2_session_cleared_on_invalid_code [where pf = dec_float and cfg = settings0
      and ev = env_denied and now = 10 and st = state_live
      and ?st1.0 = "state_live\<lparr>request_num := 8\<rparr>"
      and ?es1.0 = "fst (snd (idle_task dec_float settings0 env_denied 10 state_live))"
      and ?r1.0 = None]
  unfolding tick_expired tick_denied fst_conv snd_conv tick_relogin
  by (simp add: invalid_session_def placeholder_def state_live_def)

theorem C3_expired_poll_publishes_nothing_witness:
  "poll_action \<lparr>req_id = 7, req_token = ''5f3c9a'', req_method = ''call'',
       req_obj = ''vuci.network.mobile'', req_action = ''mobile_info'',
       req_params = ModemParam ''3-1''\<rparr> \<and>
   Rpc \<lparr>req_id = 7, req_token = ''5f3c9a'', req_method = ''call'',
          req_obj = ''vuci.network.mobile'', req_action = ''mobile_info'',
          req_params = ModemParam ''3-1''\<rparr> (Fault invalid_session ''Access denied'')
     \<in> set (fst (snd (idle_task dec_float settings0 env_expired 10 state_live))) \<and>
   last_status (fst (idle_task dec_float settings0 env_expired 10 state_live))
     = last_status state_live \<and>
   last_update (fst (idle_task dec_float settings0 env_expired 10 state_live)) = 0 \<and>
   filter is_telemetry (fst (snd (idle_task dec_float settings0 env_expired 10 state_live))) = [] \<and>
   session (fst (idle_task dec_float settings0 env_expired 10 state_live)) = None"
  using C3_expired_poll_publishes_nothing [where pf = dec_float and cfg = settings0
      and ev = env_expired and now = 10 and st = state_live
      and st' = "state_live\<lparr>session := None, request_num := 8\<rparr>"
      and es = "fst (snd (idle_task dec_float settings0 env_expired 10 state_live))"
      and r = None
      and rq = "\<lparr>req_id = 7, req_token = ''5f3c9a'', req_method = ''call'',
          req_obj = ''vuci.network.mobile'', req_action = ''mobile_info'',
          req_params = ModemParam ''3-1''\<rparr>"
      and m = "''Access denied''"]
  unfolding tick_expired fst_conv snd_conv
  by (simp add: invalid_session_def poll_action_def state_live_def state0_def)

lemma tick_waiting:
  "idle_task dec_float settings0 env_refusing 105 (state0\<lparr>last_login := 100\<rparr>)
     = (state0\<lparr>last_login := 100, request_num := 2\<rparr>,
        [Rpc \<lparr>req_id = 1, req_token = placeholder, req_method = ''call'', req_obj = ''uci'',
               req_action = ''get'', req_params = ConfigParam ''network''\<rparr> (Reply 1 None)],
        None)"
  by (simp add: tick_eval)

lemma tick_login:
  "idle_task dec_float settings0 env_refusing 106 (state0\<lparr>last_login := 100\<rparr>)
     = (state0\<lparr>last_login := 106, request_num := 2\<rparr>,
        [Rpc \<lparr>req_id = 1, req_token = placeholder, req_method = ''call'', req_obj = ''session'',
               req_action = ''login'',
               req_params = LoginParams (Some ''admin'') (Some ''secret'')\<rparr> (Reply 1 None),
         Print LoginFailed],
        None)"
  by (simp add: tick_eval)

theorem C4_login_rate_limit_witness:
  "started (state0\<lparr>last_login := 100\<rparr>) \<and> session (state0\<lparr>last_login := 100\<rparr>) = None \<and>
   login_issued (fst (snd (idle_task dec_float settings0 env_refusing 106
      (state0\<lparr>last_login := 100\<rparr>)))) \<and>
   last_login (fst (idle_task dec_float settings0 env_refusing 106
      (state0\<lparr>last_login := 100\<rparr>))) = 106 \<and>
   \<not> login_issued (fst (snd (idle_task dec_float settings0 env_refusing 105
      (state0\<lparr>last_login := 100\<rparr>)))) \<and>
   last_login (fst (idle_task dec_float settings0 env_refusing 105
      (state0\<lparr>last_login := 100\<rparr>))) = 100"
  using C4_login_rate_limit [where st = "state0\<lparr>last_login := 100\<rparr>" and pf = dec_float
      and cfg = settings0 and ev = env_refusing and now = 106
      and st' = "state0\<lparr>last_login := 106, request_num := 2\<rparr>"
      and es = "fst (snd (idle_task dec_float settings0 env_refusing 106
                  (state0\<lparr>last_login := 100\<rparr>)))"
      and r = None]
    C4_login_rate_limit [where st = "state0\<lparr>last_login := 100\<rparr>" and pf = dec_float
      and cfg = settings0 and ev = env_refusing and now = 105
      and st' = "state0\<lparr>last_login := 100, request_num := 2\<rparr>"
      and es = "fst (snd (idle_task dec_float settings0 env_refusing 105
                  (state0\<lparr>last_login := 100\<rparr>)))"
      and r = None]
  unfolding tick_waiting tick_login fst_conv snd_conv
  by (simp add: state0_def login_issued_def)

text \<open>The claim as stated fails at exactly 5 seconds: the guard is \<^verbatim>\<open>now - last_login > 5\<close>,
  and the tick issues no login call.\<close>

theorem C4_login_at_five_seconds_counterexample:
  "started (state0\<lparr>last_login := 100\<rparr>) \<and> session (state0\<lparr>last_login := 100\<rparr>) = None \<and>
   (105 :: real) - last_login (state0\<lparr>last_login := 100\<rparr>) \<ge> 5 \<and>
   \<not> login_issued (fst (snd (idle_task dec_float settings0 env_refusing 105
      (state0\<lparr>last_login := 100\<rparr>))))"
  unfolding tick_waiting fst_conv snd_conv
  by (simp add: state0_def login_issued_def)

lemma tick_publishing:
  "idle_task dec_float settings0 env_publishing 100 (state_live\<lparr>last_update := 100\<rparr>)
     = (state_live\<lparr>last_update := 100, request_num := 10, last_status_message_update := 100\<rparr>,
        [Rpc \<lparr>req_id = 7, req_token = ''5f3c9a'', req_method = ''call'', req_obj = ''uci'',
               req_action = ''set'',
               req_params = SetMessage ''sms_utils'' ''cfg0392bd''
                 \<lparr>pos_lat = 546872000, pos_lon = 252797000, pos_vx = 0, pos_vy = 0,
                    pos_hdg = 0\<rparr>\<rparr> (Reply 0 None),
         Rpc \<lparr>req_id = 8, req_token = ''5f3c9a'', req_method = ''call'', req_obj = ''uci'',
               req_action = ''set'',
               req_params = SetMessage ''events_reporting'' ''cfg0292bd''
                 \<lparr>pos_lat = 546872000, pos_lon = 252797000, pos_vx = 0, pos_vy = 0,
                    pos_hdg = 0\<rparr>\<rparr> (Reply 1 None),
         Rpc \<lparr>req_id = 9, req_token = ''5f3c9a'', req_method = ''call'', req_obj = ''uci'',
               req_action = ''apply'', req_params = ApplyTimeout 10\<rparr> (Reply 0 None),
         Print (StatusSet 0 1 0)],
        None)"
  by (simp add: tick_eval)

lemma tick_no_position:
  "idle_task dec_float settings0 (env_publishing\<lparr>position := None\<rparr>) 100
       (state_live\<lparr>last_update := 100\<rparr>)
     = (state_live\<lparr>last_update := 100\<rparr>, [Print PositionUnknown], None)"
  by (simp add: tick_eval)

theorem C8_publish_timestamp_witness:
  "last_status_message_update (state_live\<lparr>last_update := 100\<rparr>) = 0 \<and>
   last_status_message_update (fst (idle_task dec_float settings0 env_publishing 100
      (state_live\<lparr>last_update := 100\<rparr>))) = 100 \<and>
   publish_calls (fst (snd (idle_task dec_float settings0 env_publishing 100
      (state_live\<lparr>last_update := 100\<rparr>))))
     = [(''set'', Reply 0 None), (''set'', Reply 1 None), (''apply'', Reply 0 None)] \<and>
   Print (StatusSet 0 1 0) \<in> set (fst (snd (publish_phase env_publishing 100
      (state_live\<lparr>last_update := 100\<rparr>)))) \<and>
   last_status_message_update (fst (idle_task dec_float settings0
      (env_publishing\<lparr>position := None\<rparr>) 100 (state_live\<lparr>last_update := 100\<rparr>))) = 0"
  using C8_publish_timestamp [where pf = dec_float and cfg = settings0 and ev = env_publishing
      and now = 100 and st = "state_live\<lparr>last_update := 100\<rparr>"
      and st' = "state_live\<lparr>last_update := 100, request_num := 10,
                   last_status_message_update := 100\<rparr>"
      and es = "fst (snd (idle_task dec_float settings0 env_publishing 100
                  (state_live\<lparr>last_update := 100\<rparr>)))"
      and r = None
      and pos = "\<lparr>pos_lat = 546872000, pos_lon = 252797000, pos_vx = 0, pos_vy = 0,
                    pos_hdg = 0\<rparr>"
      and sr = 0 and ?p1.0 = None and ?sr2.0 = 1 and ?p2.0 = None and ar = 0 and ?p3.0 = None]
    C8_publish_timestamp [where pf = dec_float and cfg = settings0
      and ev = "env_publishing\<lparr>position := None\<rparr>"
      and now = 100 and st = "state_live\<lparr>last_update := 100\<rparr>"
      and st' = "state_live\<lparr>last_update := 100\<rparr>" and es = "[Print PositionUnknown]"
      and r = None]
  unfolding tick_publishing tick_no_position fst_conv snd_conv
  by (auto simp: state_live_def state0_def env_publishing_def publish_action_def)

subsection \<open>Reported signal values\<close>

text \<open>Every telemetry message of a tick carries the values computed from the status map
  that the tick has stored.\<close>

lemma tick_reports:
  assumes "idle_task pf cfg ev now st = (st', es, r)" and "e \<in> set es" and "is_telemetry e"
  shows "\<exists>info. last_status st' = Some info \<and> reports (rssi_of pf info) (snr_of pf info) e"
  using assms(1)
proof (cases rule: idle_task_split)
  case stopped
  with assms show ?thesis by simp
next
  case (login_exit r1)
  with assms login_phase_trace [OF login_exit(2)] show ?thesis
    by (auto simp: filter_empty_conv)
next
  case (poll_exit st1 es1 es2 r2)
  with assms login_phase_trace [OF poll_exit(2)] have "e \<in> set es2"
    by (auto simp: filter_empty_conv)
  with assms poll_phase_trace(5) [OF poll_exit(3)] show ?thesis by blast
next
  case (full st1 es1 st2 es2 es3)
  with assms login_phase_trace [OF full(2)] publish_phase_trace(3) [OF full(4)]
  have "e \<in> set es2"
    by (auto simp: filter_empty_conv)
  with assms poll_phase_trace(5) [OF full(3)] publish_phase_trace(1) [OF full(4)]
  show ?thesis by auto
qed

lemmas poll_eval = report_mobile_def rssi_of_def snr_of_def py_or_def signal_keys_def
  env_mobile_def str_eval


lemma tick_zero:
  "idle_task dec_float settings0
       (env_mobile [''rsrp'' \<mapsto> ''0.4'', ''sinr'' \<mapsto> ''-0.9'', ''imsi'' \<mapsto> ''246011234567890''])
       10 state_live
     = (state_live\<lparr>request_num := 8,
          last_status := Some [''rsrp'' \<mapsto> ''0.4'', ''sinr'' \<mapsto> ''-0.9'',
                               ''imsi'' \<mapsto> ''246011234567890''],
          last_update := 10\<rparr>,
        [Rpc \<lparr>req_id = 7, req_token = ''5f3c9a'', req_method = ''call'',
               req_obj = ''vuci.network.mobile'', req_action = ''mobile_info'',
               req_params = ModemParam ''3-1''\<rparr>
           (Reply 0 (Some (MobilePayload [''rsrp'' \<mapsto> ''0.4'', ''sinr'' \<mapsto> ''-0.9'',
                               ''imsi'' \<mapsto> ''246011234567890'']))),
         RadioStatus (Link 0 False) 255 255],
        None)"
  by (simp add: tick_eval poll_eval)




text \<open>
  C9.  When the highest-priority present signal key (every key before it is absent) parses to
  the integer 0, the rssi computed is 255 and not 0: the fallback of \<^verbatim>\<open>or\<close> takes a parsed 0
  as it takes an absent field.  Likewise the snr is 255 when \<^verbatim>\<open>sinr\<close> parses to 0.  These are
  the values that a tick reports on its links.
\<close>

theorem C9_zero_reads_as_unknown:
  "(signal_keys = ks1 @ k # ks2 \<and> list_all (\<lambda>k'. mobile k' = None) ks1 \<and> mobile k = Some v \<and>
      pf (py_strip v) = Some x \<and> py_trunc x = 0 \<longrightarrow> rssi_of pf mobile = 255) \<and>
   (mobile ''sinr'' = Some v' \<and> pf (py_strip v') = Some x' \<and> py_trunc x' = 0 \<longrightarrow>
      snr_of pf mobile = 255) \<and>
   (idle_task pf cfg ev now st = (st', es, r) \<and> e \<in> set es \<and> is_telemetry e \<longrightarrow>
      (\<exists>info. last_status st' = Some info \<and> reports (rssi_of pf info) (snr_of pf info) e))"
proof (intro conjI impI)
  assume h: "signal_keys = ks1 @ k # ks2 \<and> list_all (\<lambda>k'. mobile k' = None) ks1 \<and>
      mobile k = Some v \<and> pf (py_strip v) = Some x \<and> py_trunc x = 0"
  then have "any_int pf mobile signal_keys = Some (py_trunc x)"
    using any_int_hit [of pf mobile ks1 k v x ks2] absent_unparsed [of mobile ks1 pf] by simp
  with h show "rssi_of pf mobile = 255"
    by (simp add: rssi_of_def py_or_def)
next
  assume "mobile ''sinr'' = Some v' \<and> pf (py_strip v') = Some x' \<and> py_trunc x' = 0"
  then show "snr_of pf mobile = 255"
    by (simp add: snr_of_def py_or_def)
next
  assume "idle_task pf cfg ev now st = (st', es, r) \<and> e \<in> set es \<and> is_telemetry e"
  then show "\<exists>info. last_status st' = Some info \<and> reports (rssi_of pf info) (snr_of pf info) e"
    using tick_reports by blast
qed

theorem C9_zero_reads_as_unknown_witness:
  "signal_keys = [''signal''] @ ''rsrp'' # [''rscp'', ''rsrq''] \<and>
   [''rsrp'' \<mapsto> ''0.4'', ''sinr'' \<mapsto> ''-0.9'', ''imsi'' \<mapsto> ''246011234567890''] ''signal'' = None \<and>
   dec_float (py_strip ''0.4'') = Some (4 / 10) \<and> py_trunc (4 / 10) = 0 \<and>
   dec_float (py_strip ''-0.9'') = Some (- (9 / 10)) \<and> py_trunc (- (9 / 10)) = 0 \<and>
   rssi_of dec_float [''rsrp'' \<mapsto> ''0.4'', ''sinr'' \<mapsto> ''-0.9'',
                      ''imsi'' \<mapsto> ''246011234567890''] = 255 \<and>
   snr_of dec_float [''rsrp'' \<mapsto> ''0.4'', ''sinr'' \<mapsto> ''-0.9'',
                     ''imsi'' \<mapsto> ''246011234567890''] = 255 \<and>
   RadioStatus (Link 0 False) 255 255 \<in> set (fst (snd (idle_task dec_float settings0
       (env_mobile [''rsrp'' \<mapsto> ''0.4'', ''sinr'' \<mapsto> ''-0.9'', ''imsi'' \<mapsto> ''246011234567890''])
       10 state_live)))"
  using C9_zero_reads_as_unknown [where ?ks1.0 = "[''signal'']" and k = "''rsrp''"
      and ?ks2.0 = "[''rscp'', ''rsrq'']" and pf = dec_float
      and mobile = "[''rsrp'' \<mapsto> ''0.4'', ''sinr'' \<mapsto> ''-0.9'', ''imsi'' \<mapsto> ''246011234567890'']"
      and v = "''0.4''" and x = "4 / 10" and v' = "''-0.9''" and x' = "- (9 / 10)"
      and cfg = settings0
      and ev = "env_mobile [''rsrp'' \<mapsto> ''0.4'', ''sinr'' \<mapsto> ''-0.9'',
                            ''imsi'' \<mapsto> ''246011234567890'']"
      and now = 10 and st = state_live
      and st' = "fst (idle_task dec_float settings0
       (env_mobile [''rsrp'' \<mapsto> ''0.4'', ''sinr'' \<mapsto> ''-0.9'', ''imsi'' \<mapsto> ''246011234567890''])
       10 state_live)"
      and es = "fst (snd (idle_task dec_float settings0
       (env_mobile [''rsrp'' \<mapsto> ''0.4'', ''sinr'' \<mapsto> ''-0.9'', ''imsi'' \<mapsto> ''246011234567890''])
       10 state_live))"
      and r = None and e = "RadioStatus (Link 0 False) 255 255"]
  unfolding tick_zero fst_conv snd_conv
  by (simp add: signal_keys_def str_eval)

end
